theory Spec2Isabelle
  imports Main "HOL-Library.Word"
begin

section \<open>Data model of the fleet management canister\<close>

text \<open>
  The repository holds two versions of \<^verbatim>\<open>src/dfinity_js_backend/src/index.ts\<close>. The
  first listing (lines 1-438, the one with the \<^verbatim>\<open>validateId\<close> helper) is called
  version 1 here, the second listing (lines 439-994) version 2. Both declare the same
  records, payloads, message variant and seven stores. An operation whose body differs
  between the two is embedded twice, with the suffix \<open>_v1\<close> or \<open>_v2\<close>.

  Candid \<^verbatim>\<open>text\<close> is a \<open>string\<close>; each \<open>char\<close> stands for one code unit of the
  JavaScript string, so the model covers the code units below 256. \<^verbatim>\<open>nat64\<close> is a
  \<open>64 word\<close>. Several records share field names in the source (\<^verbatim>\<open>id\<close>,
  \<^verbatim>\<open>vehicle_id\<close>, \<^verbatim>\<open>status\<close>, ...); every field carries a short prefix naming
  its record (\<open>v_status\<close> is \<^verbatim>\<open>Vehicle.status\<close>, \<open>bp_vehicle_id\<close> is
  \<^verbatim>\<open>BookingPayload.vehicle_id\<close>).
\<close>

type_synonym nat64 = "64 word"

datatype Principal = Principal string

text \<open>\<^verbatim>\<open>UserRole\<close> is declared and never used; its tag \<^verbatim>\<open>Driver\<close> is written \<open>DriverRole\<close>.\<close>

datatype UserRole = User | Admin | Manager | DriverRole

datatype VehicleStatus = Available | Booked | Maintenance

record Driver =
  d_id :: string
  d_owner :: Principal
  d_name :: string
  d_license_number :: string
  d_contact_info :: string
  d_points :: nat64
  d_created_at :: nat64

record Vehicle =
  v_id :: string
  v_registration_number :: string
  v_model :: string
  v_capacity :: nat64
  v_status :: VehicleStatus
  v_location :: string
  v_created_at :: nat64

record Booking =
  b_id :: string
  b_vehicle_id :: string
  b_driver_id :: string
  b_from_location :: string
  b_to_location :: string
  b_start_time :: nat64
  b_end_time :: nat64
  b_status :: string
  b_created_at :: nat64

record FuelConsumption =
  f_id :: string
  f_vehicle_id :: string
  f_amount :: string
  f_date :: nat64

text \<open>The record \<^verbatim>\<open>Maintenance\<close>; the name is taken by the status tag above.\<close>

record MaintenanceRecord =
  m_id :: string
  m_vehicle_id :: string
  m_description :: string
  m_scheduled_date :: nat64
  m_status :: string
  m_created_at :: nat64

record EmergencyAssistance =
  e_id :: string
  e_vehicle_id :: string
  e_description :: string
  e_location :: string
  e_status :: string
  e_created_at :: nat64

record Route =
  r_id :: string
  r_from_location :: string
  r_to_location :: string
  r_optimized_route :: string
  r_distance :: string
  r_time_estimate :: nat64

record DriverPayload =
  dp_name :: string
  dp_license_number :: string
  dp_contact_info :: string

record VehiclePayload =
  vp_registration_number :: string
  vp_model :: string
  vp_capacity :: nat64
  vp_location :: string

record BookingPayload =
  bp_vehicle_id :: string
  bp_driver_id :: string
  bp_from_location :: string
  bp_to_location :: string
  bp_start_time :: nat64
  bp_end_time :: nat64

record FuelConsumptionPayload =
  fp_vehicle_id :: string
  fp_amount :: string
  fp_date :: nat64

record MaintenancePayload =
  mp_vehicle_id :: string
  mp_description :: string
  mp_scheduled_date :: nat64

record EmergencyAssistancePayload =
  ep_vehicle_id :: string
  ep_description :: string
  ep_location :: string

record RoutePayload =
  rp_from_location :: string
  rp_to_location :: string

datatype Message =
    Success string
  | Error string
  | NotFound string
  | InvalidPayload string

subsection \<open>The keyed stores\<close>

text \<open>
  \<^verbatim>\<open>StableBTreeMap\<close> is a library class; the handlers use its \<^verbatim>\<open>insert\<close>,
  \<^verbatim>\<open>get\<close>, \<^verbatim>\<open>remove\<close> and \<^verbatim>\<open>values\<close>. It is embedded as an association list
  kept in ascending key order: \<open>btree_insert\<close> overwrites the entry of a key already
  there and puts a new key at its place in the order, \<open>btree_values\<close> lists the records
  in key order. Keys are compared code unit by code unit; the keys the handlers insert
  come from \<^verbatim>\<open>uuidv4()\<close> and have one length. The order decides only which of several
  matching records a scan meets first.
\<close>

type_synonym 'v StableBTreeMap = "(string \<times> 'v) list"

fun key_less :: "string \<Rightarrow> string \<Rightarrow> bool" where
  "key_less [] [] = False"
| "key_less [] (y # ys) = True"
| "key_less (x # xs) [] = False"
| "key_less (x # xs) (y # ys) =
     ((of_char x :: nat) < of_char y \<or> (x = y \<and> key_less xs ys))"

fun btree_insert :: "string \<Rightarrow> 'v \<Rightarrow> 'v StableBTreeMap \<Rightarrow> 'v StableBTreeMap" where
  "btree_insert k v [] = [(k, v)]"
| "btree_insert k v ((k', v') # rest) =
     (if k = k' then (k, v) # rest
      else if key_less k k' then (k, v) # (k', v') # rest
      else (k', v') # btree_insert k v rest)"

definition btree_get :: "'v StableBTreeMap \<Rightarrow> string \<Rightarrow> 'v option" where
  "btree_get m k = map_of m k"

definition btree_remove :: "string \<Rightarrow> 'v StableBTreeMap \<Rightarrow> 'v StableBTreeMap" where
  "btree_remove k m = filter (\<lambda>kv. fst kv \<noteq> k) m"

definition btree_values :: "'v StableBTreeMap \<Rightarrow> 'v list" where
  "btree_values m = map snd m"

record state =
  driverStorage :: "Driver StableBTreeMap"
  vehicleStorage :: "Vehicle StableBTreeMap"
  bookingStorage :: "Booking StableBTreeMap"
  fuelConsumptionStorage :: "FuelConsumption StableBTreeMap"
  maintenanceStorage :: "MaintenanceRecord StableBTreeMap"
  emergencyAssistanceStorage :: "EmergencyAssistance StableBTreeMap"
  routeStorage :: "Route StableBTreeMap"

text \<open>
  What a handler reads from its surroundings during one call: the identifier that
  \<^verbatim>\<open>uuidv4()\<close> hands out, the value of \<^verbatim>\<open>ic.time()\<close> (one value for the whole call)
  and \<^verbatim>\<open>ic.caller()\<close>.
\<close>

record env =
  uuidv4 :: string
  ic_time :: nat64
  ic_caller :: Principal

subsection \<open>Helper functions\<close>

text \<open>
  \<^verbatim>\<open>String.prototype.trim\<close> strips white space and line terminators from both ends;
  below code unit 256 these are TAB, LF, VT, FF, CR, SPACE and NO-BREAK SPACE.
\<close>

definition js_whitespace :: "char \<Rightarrow> bool" where
  "js_whitespace c = ((of_char c :: nat) \<in> {9, 10, 11, 12, 13, 32, 160})"

definition trim :: "string \<Rightarrow> string" where
  "trim s = rev (dropWhile js_whitespace (rev (dropWhile js_whitespace s)))"

text \<open>\<^verbatim>\<open>const validateId = (id: string) => id && id.trim().length > 0;\<close> read as a condition.\<close>

definition validateId :: "string \<Rightarrow> bool" where
  "validateId i = (i \<noteq> [] \<and> length (trim i) > 0)"


subsection \<open>Comparisons and conversions of the language\<close>

text \<open>
  \<^verbatim>\<open>driver.owner === ic.caller()\<close> compares two \<^verbatim>\<open>Principal\<close> objects with strict
  equality, which on objects is identity: the owner read back from the store and the
  object that \<^verbatim>\<open>ic.caller()\<close> builds are never the same object.
\<close>

definition principal_strict_equals :: "Principal \<Rightarrow> Principal \<Rightarrow> bool" where
  "principal_strict_equals a b = False"

text \<open>
  \<^verbatim>\<open>vehicleOpt[0].status !== "Available"\<close> of version 2 compares the variant object
  (\<^verbatim>\<open>{ Available: null }\<close>, as \<^verbatim>\<open>createVehicle\<close> writes it) with a string primitive;
  strict equality between an object and a string is false for every status.
\<close>

definition status_strict_equals_string :: "VehicleStatus \<Rightarrow> string \<Rightarrow> bool" where
  "status_strict_equals_string s t = False"

text \<open>
  \<^verbatim>\<open>parseFloat\<close> skips leading white space, then reads the longest prefix that is a
  decimal literal: an optional sign, then \<^verbatim>\<open>Infinity\<close> or digits with an optional
  fraction and an optional exponent (an exponent counts only when it has a digit).
  Without such a prefix the result is \<^verbatim>\<open>NaN\<close>. \<open>Decimal neg m e\<close> is the literal of
  mathematical value \<open>m * 10 ^ e\<close>, negated when \<open>neg\<close>; the number the program sees is
  that value rounded to the nearest double.
\<close>

datatype js_number = NaN | Infinity bool | Decimal bool nat int

definition is_digit :: "char \<Rightarrow> bool" where
  "is_digit c = (48 \<le> (of_char c :: nat) \<and> (of_char c :: nat) \<le> 57)"

definition digits_value :: "string \<Rightarrow> nat" where
  "digits_value ds = foldl (\<lambda>n c. 10 * n + (of_char c - 48)) 0 ds"

definition parse_exponent :: "string \<Rightarrow> int" where
  "parse_exponent s =
     (case s of
        [] \<Rightarrow> 0
      | c # r \<Rightarrow>
          if c = CHR ''e'' \<or> c = CHR ''E'' then
            (case r of
               [] \<Rightarrow> 0
             | sg # r' \<Rightarrow>
                 if sg = CHR ''+'' \<or> sg = CHR ''-'' then
                   (let ds = takeWhile is_digit r' in
                    if ds = [] then 0
                    else if sg = CHR ''-'' then - int (digits_value ds)
                    else int (digits_value ds))
                 else
                   (let ds = takeWhile is_digit r in
                    if ds = [] then 0 else int (digits_value ds)))
          else 0)"

definition parse_unsigned :: "bool \<Rightarrow> string \<Rightarrow> js_number" where
  "parse_unsigned neg s =
     (if take 8 s = ''Infinity'' then Infinity neg
      else
        let ip = takeWhile is_digit s; r1 = dropWhile is_digit s in
        (case r1 of
           [] \<Rightarrow> if ip = [] then NaN else Decimal neg (digits_value ip) 0
         | c # r2 \<Rightarrow>
             if c = CHR ''.'' then
               (let fp = takeWhile is_digit r2; r3 = dropWhile is_digit r2 in
                if ip = [] \<and> fp = [] then NaN
                else Decimal neg (digits_value (ip @ fp))
                       (parse_exponent r3 - int (length fp)))
             else if ip = [] then NaN
             else Decimal neg (digits_value ip) (parse_exponent r1)))"

definition parseFloat :: "string \<Rightarrow> js_number" where
  "parseFloat s =
     (case dropWhile js_whitespace s of
        [] \<Rightarrow> NaN
      | c # r \<Rightarrow>
          if c = CHR ''+'' then parse_unsigned False r
          else if c = CHR ''-'' then parse_unsigned True r
          else parse_unsigned False (c # r))"

text \<open>
  \<^verbatim>\<open>x <= 0\<close> on a number: false for \<^verbatim>\<open>NaN\<close>, true for every literal with a minus
  sign (a negative number, \<^verbatim>\<open>-0\<close> or \<^verbatim>\<open>-Infinity\<close>), and for an unsigned literal
  true exactly when its value rounds to zero, that is when it is at most \<open>2 ^ -1075\<close>,
  half of the smallest positive double.
\<close>

fun js_le_zero :: "js_number \<Rightarrow> bool" where
  "js_le_zero NaN = False"
| "js_le_zero (Infinity neg) = neg"
| "js_le_zero (Decimal neg m e) =
     (neg \<or> (if 0 \<le> e then m = 0 else m * 2 ^ 1075 \<le> 10 ^ nat (- e)))"

section \<open>Drivers\<close>

definition createDriver :: "env \<Rightarrow> DriverPayload \<Rightarrow> state \<Rightarrow> (Message + Driver) \<times> state" where
  "createDriver ev payload st =
     (if dp_name payload = [] \<or> dp_license_number payload = [] \<or> dp_contact_info payload = []
      then (Inl (InvalidPayload ''Missing required fields''), st)
      else
        let driverId = uuidv4 ev;
            driver = \<lparr> d_id = driverId,
                       d_owner = ic_caller ev,
                       d_name = dp_name payload,
                       d_license_number = dp_license_number payload,
                       d_contact_info = dp_contact_info payload,
                       d_points = 0,
                       d_created_at = ic_time ev \<rparr>
        in (Inr driver,
            st\<lparr> driverStorage := btree_insert driverId driver (driverStorage st) \<rparr>))"

definition getDrivers :: "state \<Rightarrow> Message + Driver list" where
  "getDrivers st =
     (let drivers = btree_values (driverStorage st) in
      if length drivers = 0 then Inl (NotFound ''No drivers found'') else Inr drivers)"

definition getDriverById_v1 :: "state \<Rightarrow> string \<Rightarrow> Message + Driver" where
  "getDriverById_v1 st driverId =
     (if \<not> validateId driverId then Inl (InvalidPayload ''Invalid driver ID'')
      else case btree_get (driverStorage st) driverId of
             None \<Rightarrow> Inl (NotFound ''Driver not found'')
           | Some driver \<Rightarrow> Inr driver)"

definition getDriverById_v2 :: "state \<Rightarrow> string \<Rightarrow> Message + Driver" where
  "getDriverById_v2 st driverId =
     (case btree_get (driverStorage st) driverId of
        None \<Rightarrow> Inl (NotFound ''Driver not found'')
      | Some driver \<Rightarrow> Inr driver)"

definition getDriverByPrincipal :: "env \<Rightarrow> state \<Rightarrow> Message + Driver" where
  "getDriverByPrincipal ev st =
     (case filter (\<lambda>driver. principal_strict_equals (d_owner driver) (ic_caller ev))
             (btree_values (driverStorage st)) of
        [] \<Rightarrow> Inl (NotFound ''Driver not found'')
      | driver # _ \<Rightarrow> Inr driver)"

definition deleteDriver :: "string \<Rightarrow> state \<Rightarrow> (Message + Message) \<times> state" where
  "deleteDriver driverId st =
     (if \<not> validateId driverId then (Inl (InvalidPayload ''Invalid driver ID''), st)
      else case btree_get (driverStorage st) driverId of
             None \<Rightarrow> (Inl (NotFound ''Driver not found''), st)
           | Some _ \<Rightarrow>
               (Inr (Success ''Driver deleted successfully''),
                st\<lparr> driverStorage := btree_remove driverId (driverStorage st) \<rparr>))"

definition getDriverByLicenseNumber :: "state \<Rightarrow> string \<Rightarrow> Message + Driver" where
  "getDriverByLicenseNumber st licenseNumber =
     (case filter (\<lambda>driver. d_license_number driver = licenseNumber)
             (btree_values (driverStorage st)) of
        [] \<Rightarrow> Inl (NotFound ''Driver not found with this license number'')
      | driver # _ \<Rightarrow> Inr driver)"

section \<open>Vehicles\<close>

definition createVehicle_v1 :: "env \<Rightarrow> VehiclePayload \<Rightarrow> state \<Rightarrow> (Message + Vehicle) \<times> state" where
  "createVehicle_v1 ev payload st =
     (if vp_registration_number payload = [] \<or> vp_model payload = []
         \<or> vp_capacity payload \<le> 0 \<or> vp_location payload = []
      then (Inl (InvalidPayload ''Missing or invalid vehicle data''), st)
      else
        let vehicleId = uuidv4 ev;
            vehicle = \<lparr> v_id = vehicleId,
                        v_registration_number = vp_registration_number payload,
                        v_model = vp_model payload,
                        v_capacity = vp_capacity payload,
                        v_status = Available,
                        v_location = vp_location payload,
                        v_created_at = ic_time ev \<rparr>
        in (Inr vehicle,
            st\<lparr> vehicleStorage := btree_insert vehicleId vehicle (vehicleStorage st) \<rparr>))"

text \<open>Version 2 tests \<^verbatim>\<open>!payload.capacity\<close>: the bigint \<^verbatim>\<open>0n\<close> is the one falsy value.\<close>

definition createVehicle_v2 :: "env \<Rightarrow> VehiclePayload \<Rightarrow> state \<Rightarrow> (Message + Vehicle) \<times> state" where
  "createVehicle_v2 ev payload st =
     (if vp_registration_number payload = [] \<or> vp_model payload = []
         \<or> vp_capacity payload = 0 \<or> vp_location payload = []
      then (Inl (InvalidPayload ''Missing required fields''), st)
      else
        let vehicleId = uuidv4 ev;
            vehicle = \<lparr> v_id = vehicleId,
                        v_registration_number = vp_registration_number payload,
                        v_model = vp_model payload,
                        v_capacity = vp_capacity payload,
                        v_status = Available,
                        v_location = vp_location payload,
                        v_created_at = ic_time ev \<rparr>
        in (Inr vehicle,
            st\<lparr> vehicleStorage := btree_insert vehicleId vehicle (vehicleStorage st) \<rparr>))"

definition getVehicleById_v1 :: "state \<Rightarrow> string \<Rightarrow> Message + Vehicle" where
  "getVehicleById_v1 st vehicleId =
     (if \<not> validateId vehicleId then Inl (InvalidPayload ''Invalid vehicle ID'')
      else case btree_get (vehicleStorage st) vehicleId of
             None \<Rightarrow> Inl (NotFound ''Vehicle not found'')
           | Some vehicle \<Rightarrow> Inr vehicle)"

definition getVehicleById_v2 :: "state \<Rightarrow> string \<Rightarrow> Message + Vehicle" where
  "getVehicleById_v2 st vehicleId =
     (case btree_get (vehicleStorage st) vehicleId of
        None \<Rightarrow> Inl (NotFound ''Vehicle not found'')
      | Some vehicle \<Rightarrow> Inr vehicle)"

definition getVehicleByRegistrationNumber :: "state \<Rightarrow> string \<Rightarrow> Message + Vehicle" where
  "getVehicleByRegistrationNumber st registrationNumber =
     (case filter (\<lambda>vehicle. v_registration_number vehicle = registrationNumber)
             (btree_values (vehicleStorage st)) of
        [] \<Rightarrow> Inl (NotFound ''Vehicle not found'')
      | vehicle # _ \<Rightarrow> Inr vehicle)"

definition getVehicleByModel :: "state \<Rightarrow> string \<Rightarrow> Message + Vehicle list" where
  "getVehicleByModel st model =
     (let vehicleOpt = filter (\<lambda>vehicle. v_model vehicle = model)
                         (btree_values (vehicleStorage st)) in
      if length vehicleOpt = 0 then Inl (NotFound ''Vehicle not found'') else Inr vehicleOpt)"

definition getVehicles :: "state \<Rightarrow> Message + Vehicle list" where
  "getVehicles st =
     (let vehicles = btree_values (vehicleStorage st) in
      if length vehicles = 0 then Inl (NotFound ''No vehicles found'') else Inr vehicles)"

definition deleteVehicle :: "string \<Rightarrow> state \<Rightarrow> (Message + Message) \<times> state" where
  "deleteVehicle vehicleId st =
     (if \<not> validateId vehicleId then (Inl (InvalidPayload ''Invalid vehicle ID''), st)
      else case btree_get (vehicleStorage st) vehicleId of
             None \<Rightarrow> (Inl (NotFound ''Vehicle not found''), st)
           | Some _ \<Rightarrow>
               (Inr (Success ''Vehicle deleted successfully''),
                st\<lparr> vehicleStorage := btree_remove vehicleId (vehicleStorage st) \<rparr>))"

definition updateVehicleStatus :: "string \<Rightarrow> VehicleStatus \<Rightarrow> state \<Rightarrow> (Message + Message) \<times> state" where
  "updateVehicleStatus vehicleId status st =
     (if \<not> validateId vehicleId then (Inl (InvalidPayload ''Invalid vehicle ID''), st)
      else case btree_get (vehicleStorage st) vehicleId of
             None \<Rightarrow> (Inl (NotFound ''Vehicle not found''), st)
           | Some vehicle \<Rightarrow>
               (Inr (Success ''Vehicle status updated successfully''),
                st\<lparr> vehicleStorage :=
                      btree_insert vehicleId (vehicle\<lparr> v_status := status \<rparr>)
                        (vehicleStorage st) \<rparr>))"

section \<open>Bookings\<close>

text \<open>
  Version 1 tests \<^verbatim>\<open>vehicleOpt[0].status.Available === undefined\<close>: the property
  \<^verbatim>\<open>Available\<close> of the variant object is \<^verbatim>\<open>null\<close> when the tag is
  \<^verbatim>\<open>Available\<close> and missing for the other two tags.
\<close>

definition createBooking_v1 :: "env \<Rightarrow> BookingPayload \<Rightarrow> state \<Rightarrow> (Message + Booking) \<times> state" where
  "createBooking_v1 ev payload st =
     (if bp_from_location payload = [] \<or> bp_to_location payload = []
         \<or> bp_start_time payload \<le> ic_time ev
      then (Inl (InvalidPayload ''Invalid booking data''), st)
      else
        case filter (\<lambda>vehicle. v_id vehicle = bp_vehicle_id payload)
               (btree_values (vehicleStorage st)) of
          [] \<Rightarrow> (Inl (NotFound ''Vehicle not found''), st)
        | vehicle0 # _ \<Rightarrow>
            if v_status vehicle0 \<noteq> Available
            then (Inl (Error ''Vehicle is not available''), st)
            else
              case filter (\<lambda>driver. d_id driver = bp_driver_id payload)
                     (btree_values (driverStorage st)) of
                [] \<Rightarrow> (Inl (NotFound ''Driver not found''), st)
              | _ # _ \<Rightarrow>
                  let bookingId = uuidv4 ev;
                      booking = \<lparr> b_id = bookingId,
                                  b_vehicle_id = bp_vehicle_id payload,
                                  b_driver_id = bp_driver_id payload,
                                  b_from_location = bp_from_location payload,
                                  b_to_location = bp_to_location payload,
                                  b_start_time = bp_start_time payload,
                                  b_end_time = bp_end_time payload,
                                  b_status = ''pending'',
                                  b_created_at = ic_time ev \<rparr>
                  in (Inr booking,
                      st\<lparr> bookingStorage :=
                            btree_insert bookingId booking (bookingStorage st) \<rparr>))"

definition createBooking_v2 :: "env \<Rightarrow> BookingPayload \<Rightarrow> state \<Rightarrow> (Message + Booking) \<times> state" where
  "createBooking_v2 ev payload st =
     (if bp_from_location payload = [] \<or> bp_to_location payload = []
         \<or> bp_start_time payload \<le> ic_time ev
      then (Inl (InvalidPayload ''Invalid booking data''), st)
      else
        case filter (\<lambda>vehicle. v_id vehicle = bp_vehicle_id payload)
               (btree_values (vehicleStorage st)) of
          [] \<Rightarrow> (Inl (NotFound ''Vehicle not found''), st)
        | vehicle0 # _ \<Rightarrow>
            if \<not> status_strict_equals_string (v_status vehicle0) ''Available''
            then (Inl (Error ''Vehicle is not available''), st)
            else
              case filter (\<lambda>driver. d_id driver = bp_driver_id payload)
                     (btree_values (driverStorage st)) of
                [] \<Rightarrow> (Inl (NotFound ''Driver not found''), st)
              | _ # _ \<Rightarrow>
                  let bookingId = uuidv4 ev;
                      booking = \<lparr> b_id = bookingId,
                                  b_vehicle_id = bp_vehicle_id payload,
                                  b_driver_id = bp_driver_id payload,
                                  b_from_location = bp_from_location payload,
                                  b_to_location = bp_to_location payload,
                                  b_start_time = bp_start_time payload,
                                  b_end_time = bp_end_time payload,
                                  b_status = ''pending'',
                                  b_created_at = ic_time ev \<rparr>
                  in (Inr booking,
                      st\<lparr> bookingStorage :=
                            btree_insert bookingId booking (bookingStorage st) \<rparr>))"

definition getBookings :: "state \<Rightarrow> Message + Booking list" where
  "getBookings st =
     (let bookings = btree_values (bookingStorage st) in
      if length bookings = 0 then Inl (NotFound ''No bookings found'') else Inr bookings)"

definition getBookingById :: "state \<Rightarrow> string \<Rightarrow> Message + Booking" where
  "getBookingById st bookingId =
     (case btree_get (bookingStorage st) bookingId of
        None \<Rightarrow> Inl (NotFound ''Booking not found'')
      | Some booking \<Rightarrow> Inr booking)"

definition getBookingByVehicleId_v1 :: "state \<Rightarrow> string \<Rightarrow> Message + Booking list" where
  "getBookingByVehicleId_v1 st vehicleId =
     (let bookings = filter (\<lambda>booking. b_vehicle_id booking = vehicleId)
                       (btree_values (bookingStorage st)) in
      if length bookings = 0 then Inl (NotFound ''No bookings found for this vehicle'')
      else Inr bookings)"

definition getBookingByVehicleId_v2 :: "state \<Rightarrow> string \<Rightarrow> Message + Booking list" where
  "getBookingByVehicleId_v2 st vehicleId =
     (let bookings = filter (\<lambda>booking. b_vehicle_id booking = vehicleId)
                       (btree_values (bookingStorage st)) in
      if length bookings = 0 then Inl (NotFound ''No bookings found'') else Inr bookings)"

definition getBookingByDriverId :: "state \<Rightarrow> string \<Rightarrow> Message + Booking list" where
  "getBookingByDriverId st driverId =
     (let bookings = filter (\<lambda>booking. b_driver_id booking = driverId)
                       (btree_values (bookingStorage st)) in
      if length bookings = 0 then Inl (NotFound ''No bookings found'') else Inr bookings)"

section \<open>Fuel consumption, maintenance, emergency assistance\<close>

definition recordFuelConsumption_v1 ::
  "env \<Rightarrow> FuelConsumptionPayload \<Rightarrow> state \<Rightarrow> (Message + FuelConsumption) \<times> state" where
  "recordFuelConsumption_v1 ev payload st =
     (if js_le_zero (parseFloat (fp_amount payload))
      then (Inl (InvalidPayload ''Amount must be greater than zero''), st)
      else
        case btree_get (vehicleStorage st) (fp_vehicle_id payload) of
          None \<Rightarrow> (Inl (NotFound ''Vehicle not found''), st)
        | Some _ \<Rightarrow>
            let consumptionId = uuidv4 ev;
                fuelConsumption = \<lparr> f_id = consumptionId,
                                    f_vehicle_id = fp_vehicle_id payload,
                                    f_amount = fp_amount payload,
                                    f_date = fp_date payload \<rparr>
            in (Inr fuelConsumption,
                st\<lparr> fuelConsumptionStorage :=
                      btree_insert consumptionId fuelConsumption
                        (fuelConsumptionStorage st) \<rparr>))"

definition recordFuelConsumption_v2 ::
  "env \<Rightarrow> FuelConsumptionPayload \<Rightarrow> state \<Rightarrow> (Message + FuelConsumption) \<times> state" where
  "recordFuelConsumption_v2 ev payload st =
     (if js_le_zero (parseFloat (fp_amount payload))
      then (Inl (InvalidPayload ''Amount must be greater than zero''), st)
      else
        case filter (\<lambda>vehicle. v_id vehicle = fp_vehicle_id payload)
               (btree_values (vehicleStorage st)) of
          [] \<Rightarrow> (Inl (NotFound ''Vehicle not found''), st)
        | _ # _ \<Rightarrow>
            let consumptionId = uuidv4 ev;
                fuelConsumption = \<lparr> f_id = consumptionId,
                                    f_vehicle_id = fp_vehicle_id payload,
                                    f_amount = fp_amount payload,
                                    f_date = fp_date payload \<rparr>
            in (Inr fuelConsumption,
                st\<lparr> fuelConsumptionStorage :=
                      btree_insert consumptionId fuelConsumption
                        (fuelConsumptionStorage st) \<rparr>))"

definition getFuelConsumptions :: "state \<Rightarrow> Message + FuelConsumption list" where
  "getFuelConsumptions st =
     (let records = btree_values (fuelConsumptionStorage st) in
      if length records = 0 then Inl (NotFound ''No fuel consumption records found'')
      else Inr records)"

definition scheduleMaintenance_v1 ::
  "env \<Rightarrow> MaintenancePayload \<Rightarrow> state \<Rightarrow> (Message + MaintenanceRecord) \<times> state" where
  "scheduleMaintenance_v1 ev payload st =
     (if mp_description payload = [] \<or> mp_scheduled_date payload \<le> ic_time ev
      then (Inl (InvalidPayload ''Invalid maintenance data''), st)
      else
        case btree_get (vehicleStorage st) (mp_vehicle_id payload) of
          None \<Rightarrow> (Inl (NotFound ''Vehicle not found''), st)
        | Some _ \<Rightarrow>
            let maintenanceId = uuidv4 ev;
                maintenance = \<lparr> m_id = maintenanceId,
                                m_vehicle_id = mp_vehicle_id payload,
                                m_description = mp_description payload,
                                m_scheduled_date = mp_scheduled_date payload,
                                m_status = ''pending'',
                                m_created_at = ic_time ev \<rparr>
            in (Inr maintenance,
                st\<lparr> maintenanceStorage :=
                      btree_insert maintenanceId maintenance (maintenanceStorage st) \<rparr>))"

definition scheduleMaintenance_v2 ::
  "env \<Rightarrow> MaintenancePayload \<Rightarrow> state \<Rightarrow> (Message + MaintenanceRecord) \<times> state" where
  "scheduleMaintenance_v2 ev payload st =
     (if mp_description payload = [] \<or> mp_scheduled_date payload \<le> ic_time ev
      then (Inl (InvalidPayload ''Invalid maintenance data''), st)
      else
        case filter (\<lambda>vehicle. v_id vehicle = mp_vehicle_id payload)
               (btree_values (vehicleStorage st)) of
          [] \<Rightarrow> (Inl (NotFound ''Vehicle not found''), st)
        | _ # _ \<Rightarrow>
            let maintenanceId = uuidv4 ev;
                maintenance = \<lparr> m_id = maintenanceId,
                                m_vehicle_id = mp_vehicle_id payload,
                                m_description = mp_description payload,
                                m_scheduled_date = mp_scheduled_date payload,
                                m_status = ''pending'',
                                m_created_at = ic_time ev \<rparr>
            in (Inr maintenance,
                st\<lparr> maintenanceStorage :=
                      btree_insert maintenanceId maintenance (maintenanceStorage st) \<rparr>))"

definition getMaintenances :: "state \<Rightarrow> Message + MaintenanceRecord list" where
  "getMaintenances st =
     (let records = btree_values (maintenanceStorage st) in
      if length records = 0 then Inl (NotFound ''No maintenance records found'')
      else Inr records)"

definition requestEmergencyAssistance_v1 ::
  "env \<Rightarrow> EmergencyAssistancePayload \<Rightarrow> state \<Rightarrow> (Message + EmergencyAssistance) \<times> state" where
  "requestEmergencyAssistance_v1 ev payload st =
     (if ep_description payload = [] \<or> ep_location payload = []
      then (Inl (InvalidPayload ''Invalid emergency assistance data''), st)
      else
        case btree_get (vehicleStorage st) (ep_vehicle_id payload) of
          None \<Rightarrow> (Inl (NotFound ''Vehicle not found''), st)
        | Some _ \<Rightarrow>
            let assistanceId = uuidv4 ev;
                emergencyAssistance = \<lparr> e_id = assistanceId,
                                        e_vehicle_id = ep_vehicle_id payload,
                                        e_description = ep_description payload,
                                        e_location = ep_location payload,
                                        e_status = ''pending'',
                                        e_created_at = ic_time ev \<rparr>
            in (Inr emergencyAssistance,
                st\<lparr> emergencyAssistanceStorage :=
                      btree_insert assistanceId emergencyAssistance
                        (emergencyAssistanceStorage st) \<rparr>))"

definition requestEmergencyAssistance_v2 ::
  "env \<Rightarrow> EmergencyAssistancePayload \<Rightarrow> state \<Rightarrow> (Message + EmergencyAssistance) \<times> state" where
  "requestEmergencyAssistance_v2 ev payload st =
     (if ep_description payload = [] \<or> ep_location payload = []
      then (Inl (InvalidPayload ''Invalid emergency assistance data''), st)
      else
        case filter (\<lambda>vehicle. v_id vehicle = ep_vehicle_id payload)
               (btree_values (vehicleStorage st)) of
          [] \<Rightarrow> (Inl (NotFound ''Vehicle not found''), st)
        | _ # _ \<Rightarrow>
            let assistanceId = uuidv4 ev;
                emergencyAssistance = \<lparr> e_id = assistanceId,
                                        e_vehicle_id = ep_vehicle_id payload,
                                        e_description = ep_description payload,
                                        e_location = ep_location payload,
                                        e_status = ''pending'',
                                        e_created_at = ic_time ev \<rparr>
            in (Inr emergencyAssistance,
                st\<lparr> emergencyAssistanceStorage :=
                      btree_insert assistanceId emergencyAssistance
                        (emergencyAssistanceStorage st) \<rparr>))"

definition getEmergencyAssistances :: "state \<Rightarrow> Message + EmergencyAssistance list" where
  "getEmergencyAssistances st =
     (let records = btree_values (emergencyAssistanceStorage st) in
      if length records = 0 then Inl (NotFound ''No emergency assistance records found'')
      else Inr records)"

section \<open>Routes\<close>

definition createRoute :: "env \<Rightarrow> RoutePayload \<Rightarrow> state \<Rightarrow> (Message + Route) \<times> state" where
  "createRoute ev payload st =
     (if rp_from_location payload = [] \<or> rp_to_location payload = []
      then (Inl (InvalidPayload ''Invalid route data''), st)
      else
        let routeId = uuidv4 ev;
            route = \<lparr> r_id = routeId,
                      r_from_location = rp_from_location payload,
                      r_to_location = rp_to_location payload,
                      r_optimized_route =
                        ''Optimized route from '' @ rp_from_location payload
                          @ '' to '' @ rp_to_location payload,
                      r_distance = ''100km'',
                      r_time_estimate = 3600 \<rparr>
        in (Inr route, st\<lparr> routeStorage := btree_insert routeId route (routeStorage st) \<rparr>))"

definition getRoutes :: "state \<Rightarrow> Message + Route list" where
  "getRoutes st =
     (let routes = btree_values (routeStorage st) in
      if length routes = 0 then Inl (NotFound ''No routes found'') else Inr routes)"

definition getRouteById :: "state \<Rightarrow> string \<Rightarrow> Message + Route" where
  "getRouteById st routeId =
     (case btree_get (routeStorage st) routeId of
        None \<Rightarrow> Inl (NotFound ''Route not found'')
      | Some route \<Rightarrow> Inr route)"

section \<open>The two canisters\<close>

text \<open>
  \<^verbatim>\<open>Canister({...})\<close> exports the handlers; a call names one of them and carries its
  arguments. A \<^verbatim>\<open>query\<close> handler reads the stores and cannot change them, an
  \<^verbatim>\<open>update\<close> handler returns the stores as it leaves them. The reply is the
  \<^verbatim>\<open>Result\<close> of the handler: \<open>Inl\<close> is \<^verbatim>\<open>Err\<close>, \<open>Inr\<close> is \<^verbatim>\<open>Ok\<close>.
\<close>

datatype reply =
    DriverReply Driver
  | DriverVec "Driver list"
  | VehicleReply Vehicle
  | VehicleVec "Vehicle list"
  | BookingReply Booking
  | BookingVec "Booking list"
  | FuelConsumptionReply FuelConsumption
  | FuelConsumptionVec "FuelConsumption list"
  | MaintenanceReply MaintenanceRecord
  | MaintenanceVec "MaintenanceRecord list"
  | EmergencyAssistanceReply EmergencyAssistance
  | EmergencyAssistanceVec "EmergencyAssistance list"
  | RouteReply Route
  | RouteVec "Route list"
  | MessageReply Message

definition update_call :: "('a \<Rightarrow> reply) \<Rightarrow> (Message + 'a) \<times> state \<Rightarrow> (Message + reply) \<times> state" where
  "update_call wrap r = (map_sum id wrap (fst r), snd r)"

definition query_call :: "('a \<Rightarrow> reply) \<Rightarrow> Message + 'a \<Rightarrow> state \<Rightarrow> (Message + reply) \<times> state" where
  "query_call wrap r st = (map_sum id wrap r, st)"

datatype call_v1 =
    CreateDriver1 DriverPayload
  | GetDrivers1
  | GetDriverById1 string
  | GetDriverByPrincipal1
  | DeleteDriver1 string
  | GetDriverByLicenseNumber1 string
  | CreateVehicle1 VehiclePayload
  | GetVehicleById1 string
  | GetVehicleByRegistrationNumber1 string
  | DeleteVehicle1 string
  | UpdateVehicleStatus1 string VehicleStatus
  | CreateBooking1 BookingPayload
  | GetBookings1
  | GetBookingByVehicleId1 string
  | RecordFuelConsumption1 FuelConsumptionPayload
  | ScheduleMaintenance1 MaintenancePayload
  | RequestEmergencyAssistance1 EmergencyAssistancePayload
  | GetEmergencyAssistances1
  | CreateRoute1 RoutePayload
  | GetRoutes1

fun canister_v1 :: "env \<Rightarrow> call_v1 \<Rightarrow> state \<Rightarrow> (Message + reply) \<times> state" where
  "canister_v1 ev (CreateDriver1 p) st = update_call DriverReply (createDriver ev p st)"
| "canister_v1 ev GetDrivers1 st = query_call DriverVec (getDrivers st) st"
| "canister_v1 ev (GetDriverById1 i) st = query_call DriverReply (getDriverById_v1 st i) st"
| "canister_v1 ev GetDriverByPrincipal1 st = query_call DriverReply (getDriverByPrincipal ev st) st"
| "canister_v1 ev (DeleteDriver1 i) st = update_call MessageReply (deleteDriver i st)"
| "canister_v1 ev (GetDriverByLicenseNumber1 l) st =
     query_call DriverReply (getDriverByLicenseNumber st l) st"
| "canister_v1 ev (CreateVehicle1 p) st = update_call VehicleReply (createVehicle_v1 ev p st)"
| "canister_v1 ev (GetVehicleById1 i) st = query_call VehicleReply (getVehicleById_v1 st i) st"
| "canister_v1 ev (GetVehicleByRegistrationNumber1 r) st =
     query_call VehicleReply (getVehicleByRegistrationNumber st r) st"
| "canister_v1 ev (DeleteVehicle1 i) st = update_call MessageReply (deleteVehicle i st)"
| "canister_v1 ev (UpdateVehicleStatus1 i s) st =
     update_call MessageReply (updateVehicleStatus i s st)"
| "canister_v1 ev (CreateBooking1 p) st = update_call BookingReply (createBooking_v1 ev p st)"
| "canister_v1 ev GetBookings1 st = query_call BookingVec (getBookings st) st"
| "canister_v1 ev (GetBookingByVehicleId1 i) st =
     query_call BookingVec (getBookingByVehicleId_v1 st i) st"
| "canister_v1 ev (RecordFuelConsumption1 p) st =
     update_call FuelConsumptionReply (recordFuelConsumption_v1 ev p st)"
| "canister_v1 ev (ScheduleMaintenance1 p) st =
     update_call MaintenanceReply (scheduleMaintenance_v1 ev p st)"
| "canister_v1 ev (RequestEmergencyAssistance1 p) st =
     update_call EmergencyAssistanceReply (requestEmergencyAssistance_v1 ev p st)"
| "canister_v1 ev GetEmergencyAssistances1 st =
     query_call EmergencyAssistanceVec (getEmergencyAssistances st) st"
| "canister_v1 ev (CreateRoute1 p) st = update_call RouteReply (createRoute ev p st)"
| "canister_v1 ev GetRoutes1 st = query_call RouteVec (getRoutes st) st"

datatype call_v2 =
    CreateDriver2 DriverPayload
  | GetDrivers2
  | GetDriverById2 string
  | GetDriverByPrincipal2
  | CreateVehicle2 VehiclePayload
  | GetVehicleById2 string
  | GetVehicleByRegistrationNumber2 string
  | GetVehicleByModel2 string
  | GetVehicles2
  | CreateBooking2 BookingPayload
  | GetBookings2
  | GetBookingById2 string
  | GetBookingByVehicleId2 string
  | GetBookingByDriverId2 string
  | RecordFuelConsumption2 FuelConsumptionPayload
  | GetFuelConsumptions2
  | ScheduleMaintenance2 MaintenancePayload
  | GetMaintenances2
  | RequestEmergencyAssistance2 EmergencyAssistancePayload
  | GetEmergencyAssistances2
  | CreateRoute2 RoutePayload
  | GetRoutes2
  | GetRouteById2 string

fun canister_v2 :: "env \<Rightarrow> call_v2 \<Rightarrow> state \<Rightarrow> (Message + reply) \<times> state" where
  "canister_v2 ev (CreateDriver2 p) st = update_call DriverReply (createDriver ev p st)"
| "canister_v2 ev GetDrivers2 st = query_call DriverVec (getDrivers st) st"
| "canister_v2 ev (GetDriverById2 i) st = query_call DriverReply (getDriverById_v2 st i) st"
| "canister_v2 ev GetDriverByPrincipal2 st = query_call DriverReply (getDriverByPrincipal ev st) st"
| "canister_v2 ev (CreateVehicle2 p) st = update_call VehicleReply (createVehicle_v2 ev p st)"
| "canister_v2 ev (GetVehicleById2 i) st = query_call VehicleReply (getVehicleById_v2 st i) st"
| "canister_v2 ev (GetVehicleByRegistrationNumber2 r) st =
     query_call VehicleReply (getVehicleByRegistrationNumber st r) st"
| "canister_v2 ev (GetVehicleByModel2 m) st = query_call VehicleVec (getVehicleByModel st m) st"
| "canister_v2 ev GetVehicles2 st = query_call VehicleVec (getVehicles st) st"
| "canister_v2 ev (CreateBooking2 p) st = update_call BookingReply (createBooking_v2 ev p st)"
| "canister_v2 ev GetBookings2 st = query_call BookingVec (getBookings st) st"
| "canister_v2 ev (GetBookingById2 i) st = query_call BookingReply (getBookingById st i) st"
| "canister_v2 ev (GetBookingByVehicleId2 i) st =
     query_call BookingVec (getBookingByVehicleId_v2 st i) st"
| "canister_v2 ev (GetBookingByDriverId2 i) st =
     query_call BookingVec (getBookingByDriverId st i) st"
| "canister_v2 ev (RecordFuelConsumption2 p) st =
     update_call FuelConsumptionReply (recordFuelConsumption_v2 ev p st)"
| "canister_v2 ev GetFuelConsumptions2 st =
     query_call FuelConsumptionVec (getFuelConsumptions st) st"
| "canister_v2 ev (ScheduleMaintenance2 p) st =
     update_call MaintenanceReply (scheduleMaintenance_v2 ev p st)"
| "canister_v2 ev GetMaintenances2 st = query_call MaintenanceVec (getMaintenances st) st"
| "canister_v2 ev (RequestEmergencyAssistance2 p) st =
     update_call EmergencyAssistanceReply (requestEmergencyAssistance_v2 ev p st)"
| "canister_v2 ev GetEmergencyAssistances2 st =
     query_call EmergencyAssistanceVec (getEmergencyAssistances st) st"
| "canister_v2 ev (CreateRoute2 p) st = update_call RouteReply (createRoute ev p st)"
| "canister_v2 ev GetRoutes2 st = query_call RouteVec (getRoutes st) st"
| "canister_v2 ev (GetRouteById2 i) st = query_call RouteReply (getRouteById st i) st"

text \<open>The calls that write to the vehicle store.\<close>

fun writes_vehicles_v1 :: "call_v1 \<Rightarrow> bool" where
  "writes_vehicles_v1 (CreateVehicle1 _) = True"
| "writes_vehicles_v1 (DeleteVehicle1 _) = True"
| "writes_vehicles_v1 (UpdateVehicleStatus1 _ _) = True"
| "writes_vehicles_v1 _ = False"

fun writes_vehicles_v2 :: "call_v2 \<Rightarrow> bool" where
  "writes_vehicles_v2 (CreateVehicle2 _) = True"
| "writes_vehicles_v2 _ = False"

section \<open>Reading the stores by identifier\<close>

text \<open>
  \<^verbatim>\<open>createBooking\<close> and the version 2 handlers look a referenced record up with
  \<^verbatim>\<open>values().filter((x) => x.id === id)\<close> and take element 0: the first stored record,
  in key order, whose \<^verbatim>\<open>id\<close> field is the identifier.
\<close>

definition stored_vehicle :: "state \<Rightarrow> string \<Rightarrow> Vehicle option" where
  "stored_vehicle st vehicleId =
     find (\<lambda>vehicle. v_id vehicle = vehicleId) (btree_values (vehicleStorage st))"

definition stored_driver :: "state \<Rightarrow> string \<Rightarrow> Driver option" where
  "stored_driver st driverId =
     find (\<lambda>driver. d_id driver = driverId) (btree_values (driverStorage st))"

text \<open>
  Every handler inserts a record under the key it also writes into the record's
  \<^verbatim>\<open>id\<close> field. \<open>ids_are_keys\<close> says so of the stores; where it holds the scan by
  \<^verbatim>\<open>id\<close> finds what \<^verbatim>\<open>get\<close> finds.
\<close>

definition keyed_by :: "('v \<Rightarrow> string) \<Rightarrow> 'v StableBTreeMap \<Rightarrow> bool" where
  "keyed_by f m = list_all (\<lambda>kv. f (snd kv) = fst kv) m"

definition ids_are_keys :: "state \<Rightarrow> bool" where
  "ids_are_keys st =
     (keyed_by d_id (driverStorage st) \<and> keyed_by v_id (vehicleStorage st)
      \<and> keyed_by b_id (bookingStorage st) \<and> keyed_by f_id (fuelConsumptionStorage st)
      \<and> keyed_by m_id (maintenanceStorage st)
      \<and> keyed_by e_id (emergencyAssistanceStorage st) \<and> keyed_by r_id (routeStorage st))"

section \<open>Stores at the start and sample data\<close>

definition empty_state :: state where
  "empty_state = \<lparr> driverStorage = [], vehicleStorage = [], bookingStorage = [],
                   fuelConsumptionStorage = [], maintenanceStorage = [],
                   emergencyAssistanceStorage = [], routeStorage = [] \<rparr>"

definition sample_env :: env where
  "sample_env = \<lparr> uuidv4 = ''id-3'', ic_time = 1000, ic_caller = Principal ''aaaaa-aa'' \<rparr>"

definition sample_vehicle :: Vehicle where
  "sample_vehicle = \<lparr> v_id = ''id-1'', v_registration_number = ''ABC-1'', v_model = ''Van'',
                      v_capacity = 4, v_status = Available, v_location = ''Depot'',
                      v_created_at = 10 \<rparr>"

definition sample_driver :: Driver where
  "sample_driver = \<lparr> d_id = ''id-2'', d_owner = Principal ''aaaaa-aa'', d_name = ''Dana'',
                     d_license_number = ''L-77'', d_contact_info = ''dana@fleet'',
                     d_points = 0, d_created_at = 20 \<rparr>"

text \<open>The stores after \<^verbatim>\<open>createVehicle\<close> and \<^verbatim>\<open>createDriver\<close> made the two records.\<close>

definition sample_state :: state where
  "sample_state = empty_state\<lparr> vehicleStorage := [(''id-1'', sample_vehicle)],
                               driverStorage := [(''id-2'', sample_driver)] \<rparr>"

definition sample_booking_payload :: BookingPayload where
  "sample_booking_payload =
     \<lparr> bp_vehicle_id = ''id-1'', bp_driver_id = ''id-2'', bp_from_location = ''Depot'',
       bp_to_location = ''Harbour'', bp_start_time = 2000, bp_end_time = 3000 \<rparr>"

definition second_driver :: Driver where
  "second_driver = \<lparr> d_id = ''id-4'', d_owner = Principal ''bbbbb-bb'', d_name = ''Eli'',
                     d_license_number = ''L-77'', d_contact_info = ''eli@fleet'',
                     d_points = 0, d_created_at = 30 \<rparr>"

text \<open>Two drivers were created with the same license number.\<close>

definition two_driver_state :: state where
  "two_driver_state =
     sample_state\<lparr> driverStorage := [(''id-2'', sample_driver), (''id-4'', second_driver)] \<rparr>"

text \<open>The vehicle after \<^verbatim>\<open>updateVehicleStatus\<close> set it to \<^verbatim>\<open>Booked\<close>.\<close>

definition booked_state :: state where
  "booked_state =
     sample_state\<lparr> vehicleStorage := [(''id-1'', sample_vehicle\<lparr> v_status := Booked \<rparr>)] \<rparr>"

definition sample_fuel_payload :: FuelConsumptionPayload where
  "sample_fuel_payload = \<lparr> fp_vehicle_id = ''id-1'', fp_amount = ''5.5'', fp_date = 500 \<rparr>"

text \<open>The booking that \<^verbatim>\<open>createBooking\<close> makes of the sample payload.\<close>

definition sample_booking :: Booking where
  "sample_booking =
     \<lparr> b_id = ''id-3'', b_vehicle_id = ''id-1'', b_driver_id = ''id-2'',
       b_from_location = ''Depot'', b_to_location = ''Harbour'', b_start_time = 2000,
       b_end_time = 3000, b_status = ''pending'', b_created_at = 1000 \<rparr>"

section \<open>Properties\<close>

subsection \<open>Facts about the stores\<close>

lemma btree_get_insert:
  "btree_get (btree_insert k v m) k' = (if k' = k then Some v else btree_get m k')"
  by (induction m) (auto simp: btree_get_def)

lemma btree_keys_insert: "fst ` set (btree_insert k v m) = insert k (fst ` set m)"
proof (induction m)
  case Nil
  show ?case by simp
next
  case (Cons kv m)
  obtain k' v' where kv: "kv = (k', v')" by (cases kv)
  show ?case unfolding kv using Cons.IH by (simp add: insert_commute)
qed

lemma btree_values_insert: "v \<in> set (btree_values (btree_insert k v m))"
proof (induction m)
  case Nil
  show ?case by (simp add: btree_values_def)
next
  case (Cons kv m)
  obtain k' v' where kv: "kv = (k', v')" by (cases kv)
  show ?case unfolding kv using Cons.IH by (simp add: btree_values_def)
qed

lemmas update_defs_v1 =
  createDriver_def deleteDriver_def createVehicle_v1_def deleteVehicle_def
  updateVehicleStatus_def createBooking_v1_def recordFuelConsumption_v1_def
  scheduleMaintenance_v1_def requestEmergencyAssistance_v1_def createRoute_def

lemmas update_defs_v2 =
  createDriver_def createVehicle_v2_def createBooking_v2_def recordFuelConsumption_v2_def
  scheduleMaintenance_v2_def requestEmergencyAssistance_v2_def createRoute_def

subsection \<open>Scans and the identifier invariant\<close>

lemma case_filter_find:
  "(case filter P xs of [] \<Rightarrow> a | x # _ \<Rightarrow> b x) = (case find P xs of None \<Rightarrow> a | Some x \<Rightarrow> b x)"
  by (induction xs) auto

lemma filter_Nil_find: "(filter P xs = []) = (find P xs = None)"
  by (induction xs) auto

lemma keyed_by_find:
  "keyed_by f m \<Longrightarrow> find (\<lambda>v. f v = k) (btree_values m) = btree_get m k"
  by (induction m) (auto simp: keyed_by_def btree_values_def btree_get_def)

lemma keyed_by_insert:
  "keyed_by f m \<Longrightarrow> f v = k \<Longrightarrow> keyed_by f (btree_insert k v m)"
  by (induction m) (auto simp: keyed_by_def)

lemma keyed_by_remove: "keyed_by f m \<Longrightarrow> keyed_by f (btree_remove k m)"
  by (induction m) (auto simp: keyed_by_def btree_remove_def)

lemma keyed_by_get: "keyed_by f m \<Longrightarrow> btree_get m k = Some v \<Longrightarrow> f v = k"
  by (induction m) (auto simp: keyed_by_def btree_get_def split: if_splits)

lemma keyed_by_status:
  "keyed_by v_id m \<Longrightarrow> btree_get m k = Some v \<Longrightarrow>
   keyed_by v_id (btree_insert k (v\<lparr> v_status := s \<rparr>) m)"
  by (rule keyed_by_insert) (auto dest: keyed_by_get)

lemma stored_vehicle_get:
  "ids_are_keys st \<Longrightarrow> stored_vehicle st i = btree_get (vehicleStorage st) i"
  by (simp add: ids_are_keys_def stored_vehicle_def keyed_by_find)

lemma stored_driver_get:
  "ids_are_keys st \<Longrightarrow> stored_driver st i = btree_get (driverStorage st) i"
  by (simp add: ids_are_keys_def stored_driver_def keyed_by_find)

lemma ids_are_keys_v1: "ids_are_keys st \<Longrightarrow> ids_are_keys (snd (canister_v1 ev c st))"
  by (cases c)
     (auto simp: update_call_def query_call_def update_defs_v1 Let_def ids_are_keys_def
                 keyed_by_insert keyed_by_remove keyed_by_status
           split: if_splits list.splits option.splits)

lemma ids_are_keys_v2: "ids_are_keys st \<Longrightarrow> ids_are_keys (snd (canister_v2 ev c st))"
  by (cases c)
     (auto simp: update_call_def query_call_def update_defs_v2 Let_def ids_are_keys_def
                 keyed_by_insert keyed_by_remove
           split: if_splits list.splits option.splits)

lemma ids_are_keys_empty: "ids_are_keys empty_state"
  by (simp add: ids_are_keys_def empty_state_def keyed_by_def)

lemma validateId_iff: "validateId i = (\<exists>c\<in>set i. \<not> js_whitespace c)"
proof -
  have drop_all: "(\<forall>x\<in>set (dropWhile P xs). P x) = (\<forall>x\<in>set xs. P x)" for P :: "char \<Rightarrow> bool" and xs
    by (induction xs) auto
  have "(trim i = []) = (\<forall>x\<in>set i. js_whitespace x)"
    by (simp add: trim_def drop_all)
  then show ?thesis by (auto simp: validateId_def)
qed

lemma validateId_sample: "validateId ''id-1''"
  by (simp add: validateId_def trim_def js_whitespace_def)

subsection \<open>Fuel amounts\<close>

text \<open>
  What \<^verbatim>\<open>parseFloat\<close> makes of the three amounts, and what \<^verbatim>\<open>recordFuelConsumption\<close>
  does with them: \<^verbatim>\<open>"0"\<close> is rejected, \<^verbatim>\<open>"5.5"\<close> with a stored vehicle is recorded
  with the amount as given, and an amount that parses to \<^verbatim>\<open>NaN\<close> is never rejected as
  \<^verbatim>\<open>InvalidPayload\<close>, since \<^verbatim>\<open>NaN <= 0\<close> is false.
\<close>

lemma parseFloat_zero: "parseFloat ''0'' = Decimal False 0 0"
  by (simp add: parseFloat_def parse_unsigned_def parse_exponent_def js_whitespace_def
        is_digit_def digits_value_def)

lemma parseFloat_five_and_a_half: "parseFloat ''5.5'' = Decimal False 55 (- 1)"
  by (simp add: parseFloat_def parse_unsigned_def parse_exponent_def js_whitespace_def
        is_digit_def digits_value_def)

lemma parseFloat_abc: "parseFloat ''abc'' = NaN"
  by (simp add: parseFloat_def parse_unsigned_def parse_exponent_def js_whitespace_def
        is_digit_def digits_value_def)

lemma recordFuelConsumption_zero_amount:
  assumes "fp_amount payload = ''0''"
  shows "(\<exists>msg. recordFuelConsumption_v1 ev payload st = (Inl (InvalidPayload msg), st))
       \<and> (\<exists>msg. recordFuelConsumption_v2 ev payload st = (Inl (InvalidPayload msg), st))"
  using assms
  by (simp add: recordFuelConsumption_v1_def recordFuelConsumption_v2_def parseFloat_zero)

lemma recordFuelConsumption_NaN_amount:
  assumes "parseFloat (fp_amount payload) = NaN"
  shows "fst (recordFuelConsumption_v1 ev payload st) \<noteq> Inl (InvalidPayload msg)
       \<and> fst (recordFuelConsumption_v2 ev payload st) \<noteq> Inl (InvalidPayload msg)"
  using assms
  by (simp add: recordFuelConsumption_v1_def recordFuelConsumption_v2_def Let_def
        split: option.splits list.splits)

lemma recordFuelConsumption_positive_amount:
  assumes "fp_amount payload = ''5.5''"
    and "btree_get (vehicleStorage st) (fp_vehicle_id payload) = Some vehicle"
    and "stored_vehicle st (fp_vehicle_id payload) = Some vehicle"
  shows "(\<exists>record st'. recordFuelConsumption_v1 ev payload st = (Inr record, st')
            \<and> f_amount record = ''5.5'')
       \<and> (\<exists>record st'. recordFuelConsumption_v2 ev payload st = (Inr record, st')
            \<and> f_amount record = ''5.5'')"
  using assms
  by (simp add: recordFuelConsumption_v1_def recordFuelConsumption_v2_def Let_def
        parseFloat_five_and_a_half case_filter_find stored_vehicle_def)

text \<open>
  C1. The amount \<^verbatim>\<open>"abc"\<close> is not numeric (\<^verbatim>\<open>parseFloat\<close> gives \<^verbatim>\<open>NaN\<close>), the
  vehicle \<^verbatim>\<open>id-1\<close> is stored, and both versions of \<^verbatim>\<open>recordFuelConsumption\<close> return
  \<^verbatim>\<open>Ok\<close> with a record of amount \<^verbatim>\<open>"abc"\<close> and insert it into the fuel store, where
  the claim asks for \<^verbatim>\<open>InvalidPayload\<close>.
\<close>

theorem recordFuelConsumption_non_numeric_amount:
  "parseFloat ''abc'' = NaN
   \<and> btree_get (vehicleStorage sample_state) ''id-1'' = Some sample_vehicle
   \<and> recordFuelConsumption_v1 sample_env (sample_fuel_payload\<lparr> fp_amount := ''abc'' \<rparr>) sample_state
       = (Inr \<lparr> f_id = ''id-3'', f_vehicle_id = ''id-1'', f_amount = ''abc'', f_date = 500 \<rparr>,
          sample_state\<lparr> fuelConsumptionStorage :=
            [(''id-3'', \<lparr> f_id = ''id-3'', f_vehicle_id = ''id-1'', f_amount = ''abc'',
                          f_date = 500 \<rparr>)] \<rparr>)
   \<and> recordFuelConsumption_v2 sample_env (sample_fuel_payload\<lparr> fp_amount := ''abc'' \<rparr>) sample_state
       = (Inr \<lparr> f_id = ''id-3'', f_vehicle_id = ''id-1'', f_amount = ''abc'', f_date = 500 \<rparr>,
          sample_state\<lparr> fuelConsumptionStorage :=
            [(''id-3'', \<lparr> f_id = ''id-3'', f_vehicle_id = ''id-1'', f_amount = ''abc'',
                          f_date = 500 \<rparr>)] \<rparr>)"
  by (simp add: parseFloat_abc recordFuelConsumption_v1_def recordFuelConsumption_v2_def
        sample_fuel_payload_def sample_state_def empty_state_def sample_env_def
        sample_vehicle_def btree_get_def btree_values_def Let_def)

subsection \<open>Bookings of an available vehicle\<close>

text \<open>
  Version 1 does what the booking scenario says: with a stored vehicle that is
  \<^verbatim>\<open>Available\<close>, a stored driver, both locations and a start time after the current
  time, \<^verbatim>\<open>createBooking\<close> returns a booking of status \<^verbatim>\<open>"pending"\<close>, and
  \<^verbatim>\<open>getBookingByVehicleId\<close> on the stores it leaves returns a sequence with that
  booking in it. Version 2 never returns \<^verbatim>\<open>Ok\<close>.
\<close>

lemma createBooking_v1_pending:
  assumes "stored_vehicle st (bp_vehicle_id payload) = Some vehicle"
    and "v_status vehicle = Available"
    and "stored_driver st (bp_driver_id payload) = Some driver"
    and "bp_from_location payload \<noteq> []" and "bp_to_location payload \<noteq> []"
    and "ic_time ev < bp_start_time payload"
  shows "\<exists>booking st'. createBooking_v1 ev payload st = (Inr booking, st')
           \<and> b_status booking = ''pending''
           \<and> (\<exists>bookings. getBookingByVehicleId_v1 st' (bp_vehicle_id payload) = Inr bookings
                 \<and> booking \<in> set bookings)"
proof -
  define booking where
    "booking = \<lparr> b_id = uuidv4 ev, b_vehicle_id = bp_vehicle_id payload,
                 b_driver_id = bp_driver_id payload,
                 b_from_location = bp_from_location payload,
                 b_to_location = bp_to_location payload,
                 b_start_time = bp_start_time payload, b_end_time = bp_end_time payload,
                 b_status = ''pending'', b_created_at = ic_time ev \<rparr>"
  define st' where
    "st' = st\<lparr> bookingStorage := btree_insert (uuidv4 ev) booking (bookingStorage st) \<rparr>"
  have run: "createBooking_v1 ev payload st = (Inr booking, st')"
    using assms
    by (simp add: createBooking_v1_def case_filter_find stored_vehicle_def stored_driver_def
          not_le [symmetric] Let_def booking_def st'_def del: not_le)
  have "booking \<in> set (btree_values (bookingStorage st'))"
    by (simp add: st'_def btree_values_insert)
  moreover have "b_vehicle_id booking = bp_vehicle_id payload"
    by (simp add: booking_def)
  ultimately have
    "booking \<in> set (filter (\<lambda>b. b_vehicle_id b = bp_vehicle_id payload)
                     (btree_values (bookingStorage st')))"
    by simp
  then have "\<exists>bookings. getBookingByVehicleId_v1 st' (bp_vehicle_id payload) = Inr bookings
                \<and> booking \<in> set bookings"
    by (auto simp: getBookingByVehicleId_v1_def Let_def filter_empty_conv)
  moreover have "b_status booking = ''pending''" by (simp add: booking_def)
  ultimately show ?thesis using run by blast
qed

lemma createBooking_v2_never_ok: "fst (createBooking_v2 ev payload st) \<noteq> Inr booking"
  by (simp add: createBooking_v2_def status_strict_equals_string_def split: list.splits)

text \<open>
  C2. In version 2 a payload that meets every condition of the claim (vehicle
  \<^verbatim>\<open>id-1\<close> stored and \<^verbatim>\<open>Available\<close>, driver \<^verbatim>\<open>id-2\<close> stored, both locations given,
  start time 2000 after the current time 1000) gets \<^verbatim>\<open>Error\<close> and no booking.
\<close>

theorem createBooking_v2_available_vehicle:
  "stored_vehicle sample_state (bp_vehicle_id sample_booking_payload) = Some sample_vehicle
   \<and> v_status sample_vehicle = Available
   \<and> stored_driver sample_state (bp_driver_id sample_booking_payload) = Some sample_driver
   \<and> bp_from_location sample_booking_payload \<noteq> []
   \<and> bp_to_location sample_booking_payload \<noteq> []
   \<and> ic_time sample_env < bp_start_time sample_booking_payload
   \<and> createBooking_v2 sample_env sample_booking_payload sample_state
       = (Inl (Error ''Vehicle is not available''), sample_state)"
  by (simp add: createBooking_v2_def status_strict_equals_string_def stored_vehicle_def
        stored_driver_def sample_state_def empty_state_def sample_env_def
        sample_booking_payload_def sample_vehicle_def sample_driver_def btree_values_def)

subsection \<open>Bookings of a vehicle that is not available\<close>

text \<open>
  C3. A booking payload that passes the field checks (both locations non-empty, start
  time after the current time) and names a stored vehicle whose status is not
  \<^verbatim>\<open>Available\<close> gets \<^verbatim>\<open>Error\<close> from \<^verbatim>\<open>createBooking\<close> in both versions, and
  the stores that come back are the stores that went in: no booking is inserted and the
  vehicle is as it was.
\<close>

theorem createBooking_unavailable_vehicle:
  assumes "bp_from_location payload \<noteq> []" and "bp_to_location payload \<noteq> []"
    and "ic_time ev < bp_start_time payload"
    and "stored_vehicle st (bp_vehicle_id payload) = Some vehicle"
    and "v_status vehicle \<noteq> Available"
  shows "(\<exists>msg. createBooking_v1 ev payload st = (Inl (Error msg), st))
       \<and> (\<exists>msg. createBooking_v2 ev payload st = (Inl (Error msg), st))"
  using assms
  by (simp add: createBooking_v1_def createBooking_v2_def case_filter_find
        stored_vehicle_def status_strict_equals_string_def not_le [symmetric])

theorem createBooking_unavailable_vehicle_witness:
  "bp_from_location sample_booking_payload \<noteq> [] \<and> bp_to_location sample_booking_payload \<noteq> []
   \<and> ic_time sample_env < bp_start_time sample_booking_payload
   \<and> stored_vehicle booked_state (bp_vehicle_id sample_booking_payload)
       = Some (sample_vehicle\<lparr> v_status := Booked \<rparr>)
   \<and> v_status (sample_vehicle\<lparr> v_status := Booked \<rparr>) \<noteq> Available
   \<and> (\<exists>msg. createBooking_v1 sample_env sample_booking_payload booked_state
         = (Inl (Error msg), booked_state))
   \<and> (\<exists>msg. createBooking_v2 sample_env sample_booking_payload booked_state
         = (Inl (Error msg), booked_state))"
proof -
  have h1: "bp_from_location sample_booking_payload \<noteq> []"
    and h2: "bp_to_location sample_booking_payload \<noteq> []"
    and h3: "ic_time sample_env < bp_start_time sample_booking_payload"
    by (simp_all add: sample_booking_payload_def sample_env_def)
  have h4: "stored_vehicle booked_state (bp_vehicle_id sample_booking_payload)
              = Some (sample_vehicle\<lparr> v_status := Booked \<rparr>)"
    by (simp add: stored_vehicle_def booked_state_def sample_state_def empty_state_def
          btree_values_def sample_booking_payload_def sample_vehicle_def)
  have h5: "v_status (sample_vehicle\<lparr> v_status := Booked \<rparr>) \<noteq> Available" by simp
  show ?thesis
    using createBooking_unavailable_vehicle [OF h1 h2 h3 h4 h5] h1 h2 h3 h4 h5 by simp
qed

subsection \<open>Filters by field\<close>

text \<open>
  C4, as stated, fails for the two filters whose result type is a single record. Two
  stored drivers have the license number \<^verbatim>\<open>L-77\<close>; \<^verbatim>\<open>getDriverByLicenseNumber\<close>
  returns the first and leaves the second out.
\<close>

theorem getDriverByLicenseNumber_first_only:
  "getDriverByLicenseNumber two_driver_state ''L-77'' = Inr sample_driver
   \<and> second_driver \<in> set (btree_values (driverStorage two_driver_state))
   \<and> d_license_number second_driver = ''L-77''
   \<and> second_driver \<noteq> sample_driver"
  by (simp add: getDriverByLicenseNumber_def two_driver_state_def sample_state_def
        empty_state_def btree_values_def sample_driver_def second_driver_def)

lemma find_no_match: "\<forall>x\<in>set xs. \<not> P x \<Longrightarrow> find P xs = None"
  by (induction xs) auto

text \<open>
  C4, amended. \<^verbatim>\<open>getVehicleByModel\<close>, \<^verbatim>\<open>getBookingByVehicleId\<close> (both versions) and
  \<^verbatim>\<open>getBookingByDriverId\<close> return every stored record whose field equals the argument,
  in store order, when there is one, and \<^verbatim>\<open>NotFound\<close> when there is none.
  \<^verbatim>\<open>getDriverByLicenseNumber\<close> and \<^verbatim>\<open>getVehicleByRegistrationNumber\<close> return the
  first such record alone, and \<^verbatim>\<open>NotFound\<close> when there is none.
\<close>

theorem filter_operations:
  "((\<exists>v\<in>set (btree_values (vehicleStorage st)). v_model v = x) \<longrightarrow>
      getVehicleByModel st x
        = Inr (filter (\<lambda>v. v_model v = x) (btree_values (vehicleStorage st))))
   \<and> ((\<forall>v\<in>set (btree_values (vehicleStorage st)). v_model v \<noteq> x) \<longrightarrow>
      (\<exists>msg. getVehicleByModel st x = Inl (NotFound msg)))
   \<and> ((\<exists>b\<in>set (btree_values (bookingStorage st)). b_vehicle_id b = x) \<longrightarrow>
      getBookingByVehicleId_v1 st x
        = Inr (filter (\<lambda>b. b_vehicle_id b = x) (btree_values (bookingStorage st)))
      \<and> getBookingByVehicleId_v2 st x
        = Inr (filter (\<lambda>b. b_vehicle_id b = x) (btree_values (bookingStorage st))))
   \<and> ((\<forall>b\<in>set (btree_values (bookingStorage st)). b_vehicle_id b \<noteq> x) \<longrightarrow>
      (\<exists>msg. getBookingByVehicleId_v1 st x = Inl (NotFound msg))
      \<and> (\<exists>msg. getBookingByVehicleId_v2 st x = Inl (NotFound msg)))
   \<and> ((\<exists>b\<in>set (btree_values (bookingStorage st)). b_driver_id b = x) \<longrightarrow>
      getBookingByDriverId st x
        = Inr (filter (\<lambda>b. b_driver_id b = x) (btree_values (bookingStorage st))))
   \<and> ((\<forall>b\<in>set (btree_values (bookingStorage st)). b_driver_id b \<noteq> x) \<longrightarrow>
      (\<exists>msg. getBookingByDriverId st x = Inl (NotFound msg)))
   \<and> (\<forall>d. find (\<lambda>d. d_license_number d = x) (btree_values (driverStorage st)) = Some d \<longrightarrow>
      getDriverByLicenseNumber st x = Inr d)
   \<and> ((\<forall>d\<in>set (btree_values (driverStorage st)). d_license_number d \<noteq> x) \<longrightarrow>
      (\<exists>msg. getDriverByLicenseNumber st x = Inl (NotFound msg)))
   \<and> (\<forall>v. find (\<lambda>v. v_registration_number v = x) (btree_values (vehicleStorage st)) = Some v \<longrightarrow>
      getVehicleByRegistrationNumber st x = Inr v)
   \<and> ((\<forall>v\<in>set (btree_values (vehicleStorage st)). v_registration_number v \<noteq> x) \<longrightarrow>
      (\<exists>msg. getVehicleByRegistrationNumber st x = Inl (NotFound msg)))"
  unfolding getVehicleByModel_def getBookingByVehicleId_v1_def getBookingByVehicleId_v2_def
    getBookingByDriverId_def getDriverByLicenseNumber_def getVehicleByRegistrationNumber_def
    Let_def case_filter_find
  by (intro conjI) (auto simp: filter_empty_conv find_no_match)

theorem filter_operations_witness:
  "(\<exists>b\<in>set (btree_values (bookingStorage
        (sample_state\<lparr> bookingStorage := [(''id-3'', sample_booking)] \<rparr>))).
        b_vehicle_id b = ''id-1'')
   \<and> getBookingByVehicleId_v1 (sample_state\<lparr> bookingStorage := [(''id-3'', sample_booking)] \<rparr>)
        ''id-1'' = Inr [sample_booking]
   \<and> \<not> (\<exists>v\<in>set (btree_values (vehicleStorage
        (sample_state\<lparr> bookingStorage := [(''id-3'', sample_booking)] \<rparr>))).
        v_model v = ''id-1'')
   \<and> (\<exists>msg. getVehicleByModel (sample_state\<lparr> bookingStorage := [(''id-3'', sample_booking)] \<rparr>)
        ''id-1'' = Inl (NotFound msg))
   \<and> find (\<lambda>d. d_license_number d = ''L-77'') (btree_values (driverStorage two_driver_state))
        = Some sample_driver
   \<and> getDriverByLicenseNumber two_driver_state ''L-77'' = Inr sample_driver"
proof -
  let ?st = "sample_state\<lparr> bookingStorage := [(''id-3'', sample_booking)] \<rparr>"
  have h1: "\<exists>b\<in>set (btree_values (bookingStorage ?st)). b_vehicle_id b = ''id-1''"
    by (simp add: btree_values_def sample_booking_def)
  have h2: "\<forall>v\<in>set (btree_values (vehicleStorage ?st)). v_model v \<noteq> ''id-1''"
    by (simp add: btree_values_def sample_state_def empty_state_def sample_vehicle_def)
  have h3: "find (\<lambda>d. d_license_number d = ''L-77'')
              (btree_values (driverStorage two_driver_state)) = Some sample_driver"
    by (simp add: btree_values_def two_driver_state_def sample_driver_def)
  have e: "filter (\<lambda>b. b_vehicle_id b = ''id-1'') (btree_values (bookingStorage ?st))
             = [sample_booking]"
    by (simp add: btree_values_def sample_booking_def)
  show ?thesis
    using filter_operations [of ?st "''id-1''"] filter_operations [of two_driver_state "''L-77''"]
      h1 h2 h3 e
    by simp
qed

subsection \<open>Reads by identifier\<close>

text \<open>
  C5, as stated, fails for the handlers that do not call \<^verbatim>\<open>validateId\<close>: version 2
  answers an empty or blank identifier with \<^verbatim>\<open>NotFound\<close>.
\<close>

theorem get_by_id_empty_id:
  "getRouteById empty_state [] = Inl (NotFound ''Route not found'')
   \<and> getBookingById empty_state '' '' = Inl (NotFound ''Booking not found'')
   \<and> getDriverById_v2 empty_state [] = Inl (NotFound ''Driver not found'')
   \<and> getVehicleById_v2 empty_state '' '' = Inl (NotFound ''Vehicle not found'')"
  by (simp add: getRouteById_def getBookingById_def getDriverById_v2_def getVehicleById_v2_def
        empty_state_def btree_get_def)

text \<open>
  C5, amended. \<^verbatim>\<open>getDriverById\<close> and \<^verbatim>\<open>getVehicleById\<close> of version 1 return
  \<^verbatim>\<open>InvalidPayload\<close> for an identifier that is empty or all white space; for any other
  identifier they return \<^verbatim>\<open>NotFound\<close> when the store has no record under it and
  \<^verbatim>\<open>Ok\<close> with the stored record when it has. \<^verbatim>\<open>getDriverById\<close>,
  \<^verbatim>\<open>getVehicleById\<close>, \<^verbatim>\<open>getBookingById\<close> and \<^verbatim>\<open>getRouteById\<close> of version 2 do not
  look at the shape of the identifier: \<^verbatim>\<open>NotFound\<close> when nothing is stored under it,
  the stored record otherwise.
\<close>

theorem get_by_id_operations:
  "((\<forall>c\<in>set i. js_whitespace c) \<longrightarrow>
      (\<exists>msg. getDriverById_v1 st i = Inl (InvalidPayload msg))
      \<and> (\<exists>msg. getVehicleById_v1 st i = Inl (InvalidPayload msg)))
   \<and> ((\<exists>c\<in>set i. \<not> js_whitespace c) \<longrightarrow>
      (btree_get (driverStorage st) i = None \<longrightarrow>
         (\<exists>msg. getDriverById_v1 st i = Inl (NotFound msg)))
      \<and> (\<forall>d. btree_get (driverStorage st) i = Some d \<longrightarrow> getDriverById_v1 st i = Inr d)
      \<and> (btree_get (vehicleStorage st) i = None \<longrightarrow>
         (\<exists>msg. getVehicleById_v1 st i = Inl (NotFound msg)))
      \<and> (\<forall>v. btree_get (vehicleStorage st) i = Some v \<longrightarrow> getVehicleById_v1 st i = Inr v))
   \<and> (btree_get (driverStorage st) i = None \<longrightarrow>
        (\<exists>msg. getDriverById_v2 st i = Inl (NotFound msg)))
   \<and> (\<forall>d. btree_get (driverStorage st) i = Some d \<longrightarrow> getDriverById_v2 st i = Inr d)
   \<and> (btree_get (vehicleStorage st) i = None \<longrightarrow>
        (\<exists>msg. getVehicleById_v2 st i = Inl (NotFound msg)))
   \<and> (\<forall>v. btree_get (vehicleStorage st) i = Some v \<longrightarrow> getVehicleById_v2 st i = Inr v)
   \<and> (btree_get (bookingStorage st) i = None \<longrightarrow>
        (\<exists>msg. getBookingById st i = Inl (NotFound msg)))
   \<and> (\<forall>b. btree_get (bookingStorage st) i = Some b \<longrightarrow> getBookingById st i = Inr b)
   \<and> (btree_get (routeStorage st) i = None \<longrightarrow>
        (\<exists>msg. getRouteById st i = Inl (NotFound msg)))
   \<and> (\<forall>r. btree_get (routeStorage st) i = Some r \<longrightarrow> getRouteById st i = Inr r)"
  unfolding getDriverById_v1_def getVehicleById_v1_def getDriverById_v2_def
    getVehicleById_v2_def getBookingById_def getRouteById_def validateId_iff
  by (intro conjI) auto

theorem get_by_id_operations_witness:
  "list_all js_whitespace ''  ''
   \<and> (\<exists>msg. getDriverById_v1 sample_state ''  '' = Inl (InvalidPayload msg))
   \<and> (\<exists>msg. getVehicleById_v1 sample_state ''  '' = Inl (InvalidPayload msg))
   \<and> (\<exists>c\<in>set ''id-1''. \<not> js_whitespace c)
   \<and> btree_get (driverStorage sample_state) ''id-1'' = None
   \<and> (\<exists>msg. getDriverById_v1 sample_state ''id-1'' = Inl (NotFound msg))
   \<and> (\<exists>msg. getDriverById_v2 sample_state ''id-1'' = Inl (NotFound msg))
   \<and> btree_get (vehicleStorage sample_state) ''id-1'' = Some sample_vehicle
   \<and> getVehicleById_v1 sample_state ''id-1'' = Inr sample_vehicle
   \<and> getVehicleById_v2 sample_state ''id-1'' = Inr sample_vehicle
   \<and> btree_get (bookingStorage sample_state) ''id-1'' = None
   \<and> (\<exists>msg. getBookingById sample_state ''id-1'' = Inl (NotFound msg))
   \<and> btree_get (routeStorage sample_state) ''id-1'' = None
   \<and> (\<exists>msg. getRouteById sample_state ''id-1'' = Inl (NotFound msg))"
proof -
  have h1: "\<forall>c\<in>set ''  ''. js_whitespace c" by (simp add: js_whitespace_def)
  have h2: "\<exists>c\<in>set ''id-1''. \<not> js_whitespace c" by (simp add: js_whitespace_def)
  have h3: "btree_get (driverStorage sample_state) ''id-1'' = None"
    and h4: "btree_get (vehicleStorage sample_state) ''id-1'' = Some sample_vehicle"
    and h5: "btree_get (bookingStorage sample_state) ''id-1'' = None"
    and h6: "btree_get (routeStorage sample_state) ''id-1'' = None"
    by (simp_all add: btree_get_def sample_state_def empty_state_def)
  show ?thesis
    using get_by_id_operations [of "''  ''" sample_state]
      get_by_id_operations [of "''id-1''" sample_state] h1 h2 h3 h4 h5 h6
    by simp
qed

subsection \<open>Validation in the create handlers\<close>

text \<open>
  C6, as stated, fails for the reference fields: \<^verbatim>\<open>createBooking\<close> does not test
  \<^verbatim>\<open>vehicle_id\<close>, and an empty one reaches the lookup and comes back as
  \<^verbatim>\<open>NotFound\<close>.
\<close>

theorem createBooking_empty_vehicle_id:
  "bp_vehicle_id (sample_booking_payload\<lparr> bp_vehicle_id := [] \<rparr>) = []
   \<and> createBooking_v1 sample_env (sample_booking_payload\<lparr> bp_vehicle_id := [] \<rparr>) sample_state
       = (Inl (NotFound ''Vehicle not found''), sample_state)
   \<and> createBooking_v2 sample_env (sample_booking_payload\<lparr> bp_vehicle_id := [] \<rparr>) sample_state
       = (Inl (NotFound ''Vehicle not found''), sample_state)"
  by (simp add: createBooking_v1_def createBooking_v2_def sample_env_def
        sample_booking_payload_def sample_state_def empty_state_def sample_vehicle_def
        btree_values_def)

text \<open>
  C6, amended. Each create handler returns \<^verbatim>\<open>InvalidPayload\<close>, whatever the stores hold
  and without changing them, when a field it validates is empty or zero:
  \<^verbatim>\<open>createDriver\<close> name, license number, contact info; \<^verbatim>\<open>createVehicle\<close>
  registration number, model, location, capacity 0; \<^verbatim>\<open>createBooking\<close> either location
  empty or a start time not after the current time; \<^verbatim>\<open>recordFuelConsumption\<close> an amount
  that parses to a number \<open>\<le> 0\<close>; \<^verbatim>\<open>scheduleMaintenance\<close> an empty description or a
  date not after the current time; \<^verbatim>\<open>requestEmergencyAssistance\<close> description or
  location; \<^verbatim>\<open>createRoute\<close> either location. The reference fields are not validated:
  a booking payload that passes the checks and names no stored vehicle (an empty
  \<^verbatim>\<open>vehicle_id\<close> included) gets \<^verbatim>\<open>NotFound\<close>.
\<close>

theorem create_operations_validation:
  "((dp_name dp = [] \<or> dp_license_number dp = [] \<or> dp_contact_info dp = []) \<longrightarrow>
      (\<exists>msg. createDriver ev dp st = (Inl (InvalidPayload msg), st)))
   \<and> ((vp_registration_number vp = [] \<or> vp_model vp = [] \<or> vp_capacity vp = 0
        \<or> vp_location vp = []) \<longrightarrow>
      (\<exists>msg. createVehicle_v1 ev vp st = (Inl (InvalidPayload msg), st))
      \<and> (\<exists>msg. createVehicle_v2 ev vp st = (Inl (InvalidPayload msg), st)))
   \<and> ((bp_from_location bp = [] \<or> bp_to_location bp = [] \<or> bp_start_time bp \<le> ic_time ev) \<longrightarrow>
      (\<exists>msg. createBooking_v1 ev bp st = (Inl (InvalidPayload msg), st))
      \<and> (\<exists>msg. createBooking_v2 ev bp st = (Inl (InvalidPayload msg), st)))
   \<and> (js_le_zero (parseFloat (fp_amount fp)) \<longrightarrow>
      (\<exists>msg. recordFuelConsumption_v1 ev fp st = (Inl (InvalidPayload msg), st))
      \<and> (\<exists>msg. recordFuelConsumption_v2 ev fp st = (Inl (InvalidPayload msg), st)))
   \<and> ((mp_description mp = [] \<or> mp_scheduled_date mp \<le> ic_time ev) \<longrightarrow>
      (\<exists>msg. scheduleMaintenance_v1 ev mp st = (Inl (InvalidPayload msg), st))
      \<and> (\<exists>msg. scheduleMaintenance_v2 ev mp st = (Inl (InvalidPayload msg), st)))
   \<and> ((ep_description ep = [] \<or> ep_location ep = []) \<longrightarrow>
      (\<exists>msg. requestEmergencyAssistance_v1 ev ep st = (Inl (InvalidPayload msg), st))
      \<and> (\<exists>msg. requestEmergencyAssistance_v2 ev ep st = (Inl (InvalidPayload msg), st)))
   \<and> ((rp_from_location rp = [] \<or> rp_to_location rp = []) \<longrightarrow>
      (\<exists>msg. createRoute ev rp st = (Inl (InvalidPayload msg), st)))
   \<and> ((bp_from_location bp \<noteq> [] \<and> bp_to_location bp \<noteq> [] \<and> ic_time ev < bp_start_time bp
        \<and> stored_vehicle st (bp_vehicle_id bp) = None) \<longrightarrow>
      (\<exists>msg. createBooking_v1 ev bp st = (Inl (NotFound msg), st))
      \<and> (\<exists>msg. createBooking_v2 ev bp st = (Inl (NotFound msg), st)))"
  unfolding createDriver_def createVehicle_v1_def createVehicle_v2_def createBooking_v1_def
    createBooking_v2_def recordFuelConsumption_v1_def recordFuelConsumption_v2_def
    scheduleMaintenance_v1_def scheduleMaintenance_v2_def requestEmergencyAssistance_v1_def
    requestEmergencyAssistance_v2_def createRoute_def case_filter_find stored_vehicle_def
  by (intro conjI) auto

theorem create_operations_validation_witness:
  "dp_name \<lparr> dp_name = [], dp_license_number = ''L-1'', dp_contact_info = ''x'' \<rparr> = []
   \<and> (\<exists>msg. createDriver sample_env
          \<lparr> dp_name = [], dp_license_number = ''L-1'', dp_contact_info = ''x'' \<rparr> sample_state
        = (Inl (InvalidPayload msg), sample_state))
   \<and> vp_capacity \<lparr> vp_registration_number = ''ABC-1'', vp_model = ''Van'', vp_capacity = 0,
                    vp_location = ''Depot'' \<rparr> = 0
   \<and> (\<exists>msg. createVehicle_v1 sample_env
          \<lparr> vp_registration_number = ''ABC-1'', vp_model = ''Van'', vp_capacity = 0,
            vp_location = ''Depot'' \<rparr> sample_state
        = (Inl (InvalidPayload msg), sample_state))
   \<and> bp_from_location (sample_booking_payload\<lparr> bp_from_location := [] \<rparr>) = []
   \<and> (\<exists>msg. createBooking_v1 sample_env (sample_booking_payload\<lparr> bp_from_location := [] \<rparr>)
          sample_state = (Inl (InvalidPayload msg), sample_state))
   \<and> js_le_zero (parseFloat (fp_amount (sample_fuel_payload\<lparr> fp_amount := ''0'' \<rparr>)))
   \<and> (\<exists>msg. recordFuelConsumption_v1 sample_env (sample_fuel_payload\<lparr> fp_amount := ''0'' \<rparr>)
          sample_state = (Inl (InvalidPayload msg), sample_state))
   \<and> mp_description \<lparr> mp_vehicle_id = ''id-1'', mp_description = [],
                       mp_scheduled_date = 5000 \<rparr> = []
   \<and> (\<exists>msg. scheduleMaintenance_v1 sample_env
          \<lparr> mp_vehicle_id = ''id-1'', mp_description = [], mp_scheduled_date = 5000 \<rparr>
          sample_state = (Inl (InvalidPayload msg), sample_state))
   \<and> ep_location \<lparr> ep_vehicle_id = ''id-1'', ep_description = ''flat tyre'',
                    ep_location = [] \<rparr> = []
   \<and> (\<exists>msg. requestEmergencyAssistance_v2 sample_env
          \<lparr> ep_vehicle_id = ''id-1'', ep_description = ''flat tyre'', ep_location = [] \<rparr>
          sample_state = (Inl (InvalidPayload msg), sample_state))
   \<and> rp_from_location \<lparr> rp_from_location = [], rp_to_location = ''Harbour'' \<rparr> = []
   \<and> (\<exists>msg. createRoute sample_env \<lparr> rp_from_location = [], rp_to_location = ''Harbour'' \<rparr>
          sample_state = (Inl (InvalidPayload msg), sample_state))
   \<and> bp_from_location (sample_booking_payload\<lparr> bp_vehicle_id := [] \<rparr>) \<noteq> []
   \<and> bp_to_location (sample_booking_payload\<lparr> bp_vehicle_id := [] \<rparr>) \<noteq> []
   \<and> ic_time sample_env < bp_start_time (sample_booking_payload\<lparr> bp_vehicle_id := [] \<rparr>)
   \<and> stored_vehicle sample_state (bp_vehicle_id (sample_booking_payload\<lparr> bp_vehicle_id := [] \<rparr>))
       = None
   \<and> (\<exists>msg. createBooking_v1 sample_env (sample_booking_payload\<lparr> bp_vehicle_id := [] \<rparr>)
          sample_state = (Inl (NotFound msg), sample_state))"
proof -
  have h1: "js_le_zero (parseFloat (fp_amount (sample_fuel_payload\<lparr> fp_amount := ''0'' \<rparr>)))"
    by (simp add: parseFloat_zero)
  have h2: "bp_from_location (sample_booking_payload\<lparr> bp_vehicle_id := [] \<rparr>) \<noteq> []"
    and h3: "bp_to_location (sample_booking_payload\<lparr> bp_vehicle_id := [] \<rparr>) \<noteq> []"
    and h4: "ic_time sample_env < bp_start_time (sample_booking_payload\<lparr> bp_vehicle_id := [] \<rparr>)"
    by (simp_all add: sample_booking_payload_def sample_env_def)
  have h5: "stored_vehicle sample_state
              (bp_vehicle_id (sample_booking_payload\<lparr> bp_vehicle_id := [] \<rparr>)) = None"
    by (simp add: stored_vehicle_def sample_state_def empty_state_def btree_values_def
          sample_vehicle_def)
  show ?thesis
    using create_operations_validation
      [of "\<lparr> dp_name = [], dp_license_number = ''L-1'', dp_contact_info = ''x'' \<rparr>"
          sample_env sample_state
          "\<lparr> vp_registration_number = ''ABC-1'', vp_model = ''Van'', vp_capacity = 0,
             vp_location = ''Depot'' \<rparr>"
          "sample_booking_payload\<lparr> bp_from_location := [] \<rparr>"
          "sample_fuel_payload\<lparr> fp_amount := ''0'' \<rparr>"
          "\<lparr> mp_vehicle_id = ''id-1'', mp_description = [], mp_scheduled_date = 5000 \<rparr>"
          "\<lparr> ep_vehicle_id = ''id-1'', ep_description = ''flat tyre'', ep_location = [] \<rparr>"
          "\<lparr> rp_from_location = [], rp_to_location = ''Harbour'' \<rparr>"]
      create_operations_validation
      [of _ sample_env sample_state _ "sample_booking_payload\<lparr> bp_vehicle_id := [] \<rparr>"]
      h1 h2 h3 h4 h5
    by simp
qed

subsection \<open>Failed calls leave the stores alone\<close>

lemma canister_v1_error_frame:
  "fst (canister_v1 ev c st) = Inl e \<Longrightarrow> snd (canister_v1 ev c st) = st"
  by (cases c)
     (auto simp: update_call_def query_call_def update_defs_v1 Let_def
           split: if_splits list.splits option.splits)

lemma canister_v2_error_frame:
  "fst (canister_v2 ev c st) = Inl e \<Longrightarrow> snd (canister_v2 ev c st) = st"
  by (cases c)
     (auto simp: update_call_def query_call_def update_defs_v2 Let_def
           split: if_splits list.splits option.splits)

text \<open>
  C7. Whatever the call and its arguments, in either version: when the reply is an
  \<^verbatim>\<open>Err\<close> (\<^verbatim>\<open>InvalidPayload\<close>, \<^verbatim>\<open>NotFound\<close> or \<^verbatim>\<open>Error\<close>), the seven stores
  after the call are the seven stores before it.
\<close>

theorem error_leaves_stores:
  "(fst (canister_v1 ev c1 st) = Inl e1 \<longrightarrow> snd (canister_v1 ev c1 st) = st)
   \<and> (fst (canister_v2 ev c2 st) = Inl e2 \<longrightarrow> snd (canister_v2 ev c2 st) = st)"
  using canister_v1_error_frame canister_v2_error_frame by blast

theorem error_leaves_stores_witness:
  "fst (canister_v1 sample_env (CreateBooking1 sample_booking_payload) booked_state)
     = Inl (Error ''Vehicle is not available'')
   \<and> snd (canister_v1 sample_env (CreateBooking1 sample_booking_payload) booked_state)
     = booked_state
   \<and> fst (canister_v2 sample_env
            (RecordFuelConsumption2 (sample_fuel_payload\<lparr> fp_amount := ''0'' \<rparr>)) booked_state)
     = Inl (InvalidPayload ''Amount must be greater than zero'')
   \<and> snd (canister_v2 sample_env
            (RecordFuelConsumption2 (sample_fuel_payload\<lparr> fp_amount := ''0'' \<rparr>)) booked_state)
     = booked_state"
proof -
  have h1: "fst (canister_v1 sample_env (CreateBooking1 sample_booking_payload) booked_state)
              = Inl (Error ''Vehicle is not available'')"
    by (simp add: update_call_def createBooking_v1_def sample_env_def
          sample_booking_payload_def booked_state_def sample_state_def empty_state_def
          sample_vehicle_def btree_values_def)
  have h2: "fst (canister_v2 sample_env
                  (RecordFuelConsumption2 (sample_fuel_payload\<lparr> fp_amount := ''0'' \<rparr>))
                  booked_state)
              = Inl (InvalidPayload ''Amount must be greater than zero'')"
    by (simp add: update_call_def recordFuelConsumption_v2_def parseFloat_zero)
  show ?thesis
    using error_leaves_stores
      [of sample_env "CreateBooking1 sample_booking_payload" booked_state
          "Error ''Vehicle is not available''"
          "RecordFuelConsumption2 (sample_fuel_payload\<lparr> fp_amount := ''0'' \<rparr>)"
          "InvalidPayload ''Amount must be greater than zero''"]
      h1 h2
    by simp
qed

subsection \<open>Vehicle capacity\<close>

text \<open>
  C8. \<^verbatim>\<open>createVehicle\<close> with capacity 0 (the only \<^verbatim>\<open>nat64\<close> that is \<open>\<le> 0\<close>) returns
  \<^verbatim>\<open>InvalidPayload\<close> in both versions, whatever the registration number, model and
  location are, and whatever the stores hold; the stores are left as they were.
\<close>

theorem createVehicle_zero_capacity:
  assumes "vp_capacity payload \<le> 0"
  shows "(\<exists>msg. createVehicle_v1 ev payload st = (Inl (InvalidPayload msg), st))
       \<and> (\<exists>msg. createVehicle_v2 ev payload st = (Inl (InvalidPayload msg), st))"
  using assms by (simp add: createVehicle_v1_def createVehicle_v2_def)

theorem createVehicle_zero_capacity_witness:
  "vp_capacity \<lparr> vp_registration_number = ''ABC-1'', vp_model = ''Van'',
                 vp_capacity = 0, vp_location = ''Depot'' \<rparr> \<le> 0
   \<and> (\<exists>msg. createVehicle_v1 sample_env
        \<lparr> vp_registration_number = ''ABC-1'', vp_model = ''Van'',
          vp_capacity = 0, vp_location = ''Depot'' \<rparr> sample_state
      = (Inl (InvalidPayload msg), sample_state))
   \<and> (\<exists>msg. createVehicle_v2 sample_env
        \<lparr> vp_registration_number = ''ABC-1'', vp_model = ''Van'',
          vp_capacity = 0, vp_location = ''Depot'' \<rparr> sample_state
      = (Inl (InvalidPayload msg), sample_state))"
  using createVehicle_zero_capacity
    [of "\<lparr> vp_registration_number = ''ABC-1'', vp_model = ''Van'',
           vp_capacity = 0, vp_location = ''Depot'' \<rparr>" sample_env sample_state]
  by simp

subsection \<open>Who writes to the vehicle store\<close>

lemma vehicle_store_frame_v1:
  "\<not> writes_vehicles_v1 c \<Longrightarrow> vehicleStorage (snd (canister_v1 ev c st)) = vehicleStorage st"
  by (cases c)
     (auto simp: update_call_def query_call_def update_defs_v1 Let_def
           split: if_splits list.splits option.splits)

lemma vehicle_store_frame_v2:
  "\<not> writes_vehicles_v2 c \<Longrightarrow> vehicleStorage (snd (canister_v2 ev c st)) = vehicleStorage st"
  by (cases c)
     (auto simp: update_call_def query_call_def update_defs_v2 Let_def
           split: if_splits list.splits option.splits)

lemma createBooking_v1_effect:
  assumes "createBooking_v1 ev payload st = (Inr booking, st')"
  shows "st' = st\<lparr> bookingStorage := btree_insert (uuidv4 ev) booking (bookingStorage st) \<rparr>
       \<and> (\<exists>vehicle. stored_vehicle st' (bp_vehicle_id payload) = Some vehicle
             \<and> v_status vehicle = Available)"
  using assms
  by (auto simp: createBooking_v1_def case_filter_find stored_vehicle_def Let_def
           split: if_splits option.splits)

lemma createBooking_v1_sample:
  "createBooking_v1 sample_env sample_booking_payload sample_state
     = (Inr sample_booking, sample_state\<lparr> bookingStorage := [(''id-3'', sample_booking)] \<rparr>)"
  by (simp add: createBooking_v1_def sample_env_def sample_booking_payload_def
        sample_state_def empty_state_def sample_vehicle_def sample_driver_def
        sample_booking_def btree_values_def Let_def)

text \<open>
  C9. A call other than \<^verbatim>\<open>createVehicle\<close>, \<^verbatim>\<open>deleteVehicle\<close> and
  \<^verbatim>\<open>updateVehicleStatus\<close> (version 2 has only the first of the three) leaves the
  vehicle store as it was. A \<^verbatim>\<open>createBooking\<close> of version 1 that returns \<^verbatim>\<open>Ok\<close>
  changes the booking store alone, by one insert, and the booked vehicle is still
  stored with status \<^verbatim>\<open>Available\<close>.
\<close>

theorem vehicle_store_writers:
  "(\<not> writes_vehicles_v1 c1 \<longrightarrow>
       vehicleStorage (snd (canister_v1 ev c1 st)) = vehicleStorage st)
   \<and> (\<not> writes_vehicles_v2 c2 \<longrightarrow>
       vehicleStorage (snd (canister_v2 ev c2 st)) = vehicleStorage st)
   \<and> (createBooking_v1 ev payload st = (Inr booking, st') \<longrightarrow>
       st' = st\<lparr> bookingStorage := btree_insert (uuidv4 ev) booking (bookingStorage st) \<rparr>
       \<and> (\<exists>vehicle. stored_vehicle st' (bp_vehicle_id payload) = Some vehicle
             \<and> v_status vehicle = Available))"
  using vehicle_store_frame_v1 vehicle_store_frame_v2 createBooking_v1_effect by blast

theorem vehicle_store_writers_witness:
  "\<not> writes_vehicles_v1 (CreateBooking1 sample_booking_payload)
   \<and> vehicleStorage (snd (canister_v1 sample_env (CreateBooking1 sample_booking_payload)
                            sample_state)) = vehicleStorage sample_state
   \<and> \<not> writes_vehicles_v2 (CreateBooking2 sample_booking_payload)
   \<and> vehicleStorage (snd (canister_v2 sample_env (CreateBooking2 sample_booking_payload)
                            sample_state)) = vehicleStorage sample_state
   \<and> createBooking_v1 sample_env sample_booking_payload sample_state
       = (Inr sample_booking, sample_state\<lparr> bookingStorage := [(''id-3'', sample_booking)] \<rparr>)
   \<and> (\<exists>vehicle. stored_vehicle (sample_state\<lparr> bookingStorage := [(''id-3'', sample_booking)] \<rparr>)
                    (bp_vehicle_id sample_booking_payload) = Some vehicle
                 \<and> v_status vehicle = Available)"
proof -
  have h1: "\<not> writes_vehicles_v1 (CreateBooking1 sample_booking_payload)"
    and h2: "\<not> writes_vehicles_v2 (CreateBooking2 sample_booking_payload)"
    by simp_all
  note h3 = createBooking_v1_sample
  show ?thesis
    using vehicle_store_writers
      [of "CreateBooking1 sample_booking_payload" sample_env sample_state
          "CreateBooking2 sample_booking_payload" sample_booking_payload sample_booking
          "sample_state\<lparr> bookingStorage := [(''id-3'', sample_booking)] \<rparr>"]
      h1 h2 h3
    by blast
qed

subsection \<open>Status updates\<close>

text \<open>
  C10. For a vehicle stored under \<open>vehicleId\<close>, after \<^verbatim>\<open>updateVehicleStatus\<close> the record
  under that key has the same id, registration number, model, capacity, location and
  creation time (and, the id being well-formed, the new status); every other key of the
  vehicle store maps to what it mapped to, the store has the same keys, and the six other
  stores are unchanged.
\<close>

theorem updateVehicleStatus_frame:
  assumes "btree_get (vehicleStorage st) vehicleId = Some vehicle"
    and "st' = snd (updateVehicleStatus vehicleId status st)"
  shows "(\<exists>vehicle'. btree_get (vehicleStorage st') vehicleId = Some vehicle'
            \<and> v_id vehicle' = v_id vehicle
            \<and> v_registration_number vehicle' = v_registration_number vehicle
            \<and> v_model vehicle' = v_model vehicle
            \<and> v_capacity vehicle' = v_capacity vehicle
            \<and> v_location vehicle' = v_location vehicle
            \<and> v_created_at vehicle' = v_created_at vehicle
            \<and> (validateId vehicleId \<longrightarrow> v_status vehicle' = status))
       \<and> (\<forall>k. k \<noteq> vehicleId \<longrightarrow>
             btree_get (vehicleStorage st') k = btree_get (vehicleStorage st) k)
       \<and> fst ` set (vehicleStorage st') = fst ` set (vehicleStorage st)
       \<and> driverStorage st' = driverStorage st
       \<and> bookingStorage st' = bookingStorage st
       \<and> fuelConsumptionStorage st' = fuelConsumptionStorage st
       \<and> maintenanceStorage st' = maintenanceStorage st
       \<and> emergencyAssistanceStorage st' = emergencyAssistanceStorage st
       \<and> routeStorage st' = routeStorage st"
proof -
  have key: "vehicleId \<in> fst ` set (vehicleStorage st)"
    using assms(1) by (auto simp: btree_get_def dest: map_of_SomeD intro: rev_image_eqI)
  show ?thesis
    using assms key
    by (auto simp: updateVehicleStatus_def btree_get_insert btree_keys_insert insert_absorb)
qed


theorem updateVehicleStatus_frame_witness:
  "btree_get (vehicleStorage sample_state) ''id-1'' = Some sample_vehicle
   \<and> btree_get (vehicleStorage (snd (updateVehicleStatus ''id-1'' Maintenance sample_state)))
        ''id-1'' = Some (sample_vehicle\<lparr> v_status := Maintenance \<rparr>)
   \<and> driverStorage (snd (updateVehicleStatus ''id-1'' Maintenance sample_state))
        = driverStorage sample_state"
proof -
  have h: "btree_get (vehicleStorage sample_state) ''id-1'' = Some sample_vehicle"
    by (simp add: btree_get_def sample_state_def empty_state_def)
  show ?thesis
    using updateVehicleStatus_frame [OF h refl, of Maintenance] h validateId_sample
    by (auto simp: sample_vehicle_def)
qed

end
